theory Spec2Isabelle
  imports Complex_Main "HOL-Library.Signed_Division" "HOL-Library.Sublist"
begin

section \<open>Upstreams, rotation settings and the database\<close>

text \<open>
  Modelled from the spec: the declaration of \<open>models.Proxy\<close> is not among the sources.
  The fields are the columns that \<open>loadActiveProxiesWithSettings\<close> scans and that the
  selectors read; the columns no selector reads (username, password, last_check,
  last_error, created_at, updated_at) are left out. Go integers are modelled as \<open>int\<close>:
  no arithmetic of the selectors on these fields can overflow.
\<close>

record Proxy =
  ID :: int
  Address :: string
  Protocol :: string
  Status :: string
  Requests :: int
  SuccessfulRequests :: int
  FailedRequests :: int
  AvgResponseTime :: int

text \<open>
  Modelled from the spec: the declaration of \<open>models.RotationSettings\<close> is not among the
  sources. Only the three filter fields that \<open>loadActiveProxiesWithSettings\<close> reads are
  kept. \<open>MinSuccessRate\<close> is a \<open>float64\<close> in the source; it is a real number here.
\<close>

record RotationSettings =
  AllowedProtocols :: "string list"
  MaxResponseTime :: int
  MinSuccessRate :: real

text \<open>
  One row of table \<open>proxies\<close> as the driver delivers it: the columns, and whether
  \<open>rows.Scan\<close> succeeds on it.
\<close>

record proxies_row =
  columns :: Proxy
  scan_ok :: bool

text \<open>One row of the request log \<open>proxy_requests\<close>; the timestamp is in microseconds.\<close>

record proxy_request =
  proxy_id :: int
  timestamp :: int
  success :: bool

text \<open>
  How a query that returns rows can end: it succeeds; \<open>Pool.Query\<close> returns an error;
  or it fails while its rows are read, after so many of them, and then \<open>rows.Next()\<close>
  returns false and the error is in \<open>rows.Err()\<close> only.
\<close>

datatype query_outcome = QueryOK | QueryError | RowsError nat

text \<open>
  The database behind \<open>repo.GetDB().Pool\<close>, as one snapshot: whether the query on
  \<open>proxies\<close> fails, the rows of \<open>proxies\<close> in the order of \<open>ORDER BY address\<close>, how
  the grouped query on the request log ends, for which upstreams the single-row query
  on the request log fails, the request log, and the value of \<open>NOW()\<close> in microseconds.
  The loop over the rows of \<open>proxies\<close> does not read \<open>rows.Err()\<close> either: a delivery
  of those rows that stops early is a shorter \<open>proxies_table\<close>.
\<close>

record DB =
  proxies_query_fails :: bool
  proxies_table :: "proxies_row list"
  rate_query :: query_outcome
  recent_query_fails :: "int \<Rightarrow> bool"
  proxy_requests :: "proxy_request list"
  db_now :: int

datatype error =
    NoProxiesAvailable
  | AllRateLimited
  | LoadQueryFailed
  | ScanFailed
  | NoProxiesMatchingFilters
  | NoProxiesToCheck
  | RateQueryFailed
  | RecentQueryFailed
  | IndexOutOfRange

section \<open>Loading the candidates\<close>

text \<open>
  \<open>(float64(p.SuccessfulRequests) / float64(p.Requests)) * 100\<close>. The rounding of
  \<open>float64\<close> is the parameter \<open>rnd\<close>: it is applied at both conversions, at the
  division and at the multiplication. With \<open>rnd = (\<lambda>x. x)\<close> the arithmetic is exact.
\<close>

definition successRate :: "(real \<Rightarrow> real) \<Rightarrow> Proxy \<Rightarrow> real" where
  "successRate rnd p =
     rnd (rnd (rnd (of_int (SuccessfulRequests p)) / rnd (of_int (Requests p))) * 100)"

text \<open>The inner loop over \<open>settings.AllowedProtocols\<close>, with its \<open>break\<close>.\<close>

fun protocol_allowed :: "string list \<Rightarrow> string \<Rightarrow> bool" where
  "protocol_allowed [] proto = False"
| "protocol_allowed (protocol # rest) proto =
     (if proto = protocol then True else protocol_allowed rest proto)"

text \<open>
  The filter block of the row loop: \<open>False\<close> is a \<open>continue\<close>, \<open>True\<close> reaches the
  \<open>append\<close>. \<open>None\<close> is a nil \<open>settings\<close> pointer.
\<close>

definition passes_filters :: "(real \<Rightarrow> real) \<Rightarrow> RotationSettings option \<Rightarrow> Proxy \<Rightarrow> bool" where
  "passes_filters rnd settings p =
     (case settings of
        None \<Rightarrow> True
      | Some st \<Rightarrow>
          if length (AllowedProtocols st) > 0 \<and> \<not> protocol_allowed (AllowedProtocols st) (Protocol p)
          then False
          else if MaxResponseTime st > 0 \<and> AvgResponseTime p > MaxResponseTime st
          then False
          else if MinSuccessRate st > 0 \<and> Requests p > 0
          then (if successRate rnd p < MinSuccessRate st then False else True)
          else True)"

text \<open>The \<open>for rows.Next()\<close> loop: a failed scan returns at once.\<close>

fun scan_rows ::
  "(real \<Rightarrow> real) \<Rightarrow> RotationSettings option \<Rightarrow> proxies_row list \<Rightarrow> Proxy list \<Rightarrow> error + Proxy list"
where
  "scan_rows rnd settings [] acc = Inr acc"
| "scan_rows rnd settings (r # rs) acc =
     (if \<not> scan_ok r then Inl ScanFailed
      else if passes_filters rnd settings (columns r)
      then scan_rows rnd settings rs (acc @ [columns r])
      else scan_rows rnd settings rs acc)"

text \<open>The rows the query returns: \<open>WHERE status IN ('active', 'idle')\<close>.\<close>

definition active_rows :: "DB \<Rightarrow> proxies_row list" where
  "active_rows db =
     filter (\<lambda>r. Status (columns r) = ''active'' \<or> Status (columns r) = ''idle'') (proxies_table db)"

definition loadActiveProxiesWithSettings ::
  "(real \<Rightarrow> real) \<Rightarrow> DB \<Rightarrow> RotationSettings option \<Rightarrow> error + Proxy list"
where
  "loadActiveProxiesWithSettings rnd db settings =
     (if proxies_query_fails db then Inl LoadQueryFailed
      else case scan_rows rnd settings (active_rows db) [] of
             Inl e \<Rightarrow> Inl e
           | Inr ps \<Rightarrow> if length ps = 0 then Inl NoProxiesMatchingFilters else Inr ps)"

section \<open>The selectors\<close>

record BaseSelector =
  proxies :: "Proxy list"
  settings :: "RotationSettings option"

record RoundRobinSelector = BaseSelector +
  index :: int

record TimeBasedSelector = BaseSelector +
  interval :: int

text \<open>Times are in nanoseconds since the zero \<open>time.Time\<close>, so \<open>time.Time{}\<close> is 0.\<close>

record RateLimitedSelector = BaseSelector +
  maxRequestsPerMinute :: int
  windowSeconds :: int
  currentIndex :: int
  cache :: "Proxy list"
  cacheExpiry :: int
  cacheDuration :: int

subsection \<open>Refresh\<close>

text \<open>
  Each \<open>Refresh\<close> returns the error (\<open>None\<close> is nil) and the selector afterwards.
  \<open>RandomSelector\<close> and \<open>LeastConnectionsSelector\<close> have the fields of \<open>BaseSelector\<close>
  only.
\<close>

definition RandomSelector_Refresh ::
  "(real \<Rightarrow> real) \<Rightarrow> DB \<Rightarrow> BaseSelector \<Rightarrow> error option \<times> BaseSelector"
where
  "RandomSelector_Refresh rnd db s =
     (case loadActiveProxiesWithSettings rnd db (settings s) of
        Inl err \<Rightarrow> (Some err, s)
      | Inr ps \<Rightarrow> (None, s\<lparr>proxies := ps\<rparr>))"

definition RoundRobinSelector_Refresh ::
  "(real \<Rightarrow> real) \<Rightarrow> DB \<Rightarrow> RoundRobinSelector \<Rightarrow> error option \<times> RoundRobinSelector"
where
  "RoundRobinSelector_Refresh rnd db s =
     (case loadActiveProxiesWithSettings rnd db (settings s) of
        Inl err \<Rightarrow> (Some err, s)
      | Inr ps \<Rightarrow>
          (None, s\<lparr>proxies := ps,
                   index := (if index s \<ge> int (length ps) then 0 else index s)\<rparr>))"

definition LeastConnectionsSelector_Refresh ::
  "(real \<Rightarrow> real) \<Rightarrow> DB \<Rightarrow> BaseSelector \<Rightarrow> error option \<times> BaseSelector"
where
  "LeastConnectionsSelector_Refresh rnd db s =
     (case loadActiveProxiesWithSettings rnd db (settings s) of
        Inl err \<Rightarrow> (Some err, s)
      | Inr ps \<Rightarrow> (None, s\<lparr>proxies := ps\<rparr>))"

definition TimeBasedSelector_Refresh ::
  "(real \<Rightarrow> real) \<Rightarrow> DB \<Rightarrow> TimeBasedSelector \<Rightarrow> error option \<times> TimeBasedSelector"
where
  "TimeBasedSelector_Refresh rnd db s =
     (case loadActiveProxiesWithSettings rnd db (settings s) of
        Inl err \<Rightarrow> (Some err, s)
      | Inr ps \<Rightarrow> (None, s\<lparr>proxies := ps\<rparr>))"

definition RateLimitedSelector_Refresh ::
  "(real \<Rightarrow> real) \<Rightarrow> DB \<Rightarrow> RateLimitedSelector \<Rightarrow> error option \<times> RateLimitedSelector"
where
  "RateLimitedSelector_Refresh rnd db s =
     (case loadActiveProxiesWithSettings rnd db (settings s) of
        Inl err \<Rightarrow> (Some err, s)
      | Inr ps \<Rightarrow>
          (None, s\<lparr>proxies := ps,
                   currentIndex := (if currentIndex s \<ge> int (length ps) then 0 else currentIndex s),
                   cache := [],
                   cacheExpiry := 0\<rparr>))"

subsection \<open>Round-robin selection\<close>

text \<open>
  \<open>Select\<close> returns the result and the selector afterwards. Reading \<open>s.proxies[s.index]\<close>
  outside the slice panics in Go; that is the result \<open>IndexOutOfRange\<close>. Go's \<open>%\<close>
  truncates towards zero: \<open>smod\<close>.
\<close>

definition RoundRobinSelector_Select ::
  "RoundRobinSelector \<Rightarrow> (error + Proxy) \<times> RoundRobinSelector"
where
  "RoundRobinSelector_Select s =
     (if length (proxies s) = 0 then (Inl NoProxiesAvailable, s)
      else if index s < 0 \<or> index s \<ge> int (length (proxies s)) then (Inl IndexOutOfRange, s)
      else (Inr (proxies s ! nat (index s)),
            s\<lparr>index := (index s + 1) smod int (length (proxies s))\<rparr>))"

text \<open>\<open>n\<close> sequential calls of \<open>Select\<close> with no \<open>Refresh\<close> between them.\<close>

fun sequential_selects ::
  "nat \<Rightarrow> RoundRobinSelector \<Rightarrow> (error + Proxy) list \<times> RoundRobinSelector"
where
  "sequential_selects 0 s = ([], s)"
| "sequential_selects (Suc n) s =
     (case RoundRobinSelector_Select s of
        (r, s') \<Rightarrow> (case sequential_selects n s' of (rs, s'') \<Rightarrow> (r # rs, s'')))"

text \<open>\<open>NewRoundRobinSelector\<close>: no candidates yet, the cursor at 0.\<close>

definition NewRoundRobinSelector :: "RotationSettings option \<Rightarrow> RoundRobinSelector" where
  "NewRoundRobinSelector st = \<lparr>proxies = [], settings = st, index = 0\<rparr>"

text \<open>
  The cursor of a round-robin selector is never negative and, when there are
  candidates, lies inside the list.
\<close>

definition cursor_in_range :: "RoundRobinSelector \<Rightarrow> bool" where
  "cursor_in_range s \<longleftrightarrow>
     0 \<le> index s \<and> (proxies s \<noteq> [] \<longrightarrow> index s < int (length (proxies s)))"

subsection \<open>The rate-limited selector\<close>

text \<open>\<open>time.Second\<close>, in nanoseconds, and the wrap-around of \<open>int64\<close> arithmetic.\<close>

definition Second :: int where
  "Second = 1000000000"

definition wrap64 :: "int \<Rightarrow> int" where
  "wrap64 x = (x + 2 ^ 63) mod 2 ^ 64 - 2 ^ 63"

definition NewRateLimitedSelector ::
  "RotationSettings option \<Rightarrow> int \<Rightarrow> int \<Rightarrow> RateLimitedSelector"
where
  "NewRateLimitedSelector st maxRequests window =
     (let duration = (if window < 10 then wrap64 ((window sdiv 5) * Second) else 2 * Second)
      in \<lparr>proxies = [], settings = st,
          maxRequestsPerMinute = maxRequests, windowSeconds = window,
          currentIndex = 0, cache = [], cacheExpiry = 0, cacheDuration = duration\<rparr>)"

text \<open>
  The lower end of the window of both queries,
  \<open>NOW() - make_interval(secs => windowSeconds)\<close>, in microseconds.
\<close>

definition window_start :: "DB \<Rightarrow> int \<Rightarrow> int" where
  "window_start db window = db_now db - window * 1000000"

text \<open>
  The grouped query of \<open>getAvailableProxies\<close>: the successful requests of the given
  proxies in the window, grouped by proxy, the groups with \<open>COUNT( * ) < maxRequests\<close>
  kept. A proxy with no matching row has no group.
\<close>

definition grouped_rows :: "DB \<Rightarrow> int list \<Rightarrow> int \<Rightarrow> int \<Rightarrow> (int \<times> int) list" where
  "grouped_rows db proxyIDs window maxRequests =
     (let matching = filter (\<lambda>r. proxy_id r \<in> set proxyIDs \<and>
                                 timestamp r \<ge> window_start db window \<and>
                                 success r) (proxy_requests db);
          groups = remdups (map proxy_id matching);
          counted = map (\<lambda>pid. (pid, int (length (filter (\<lambda>r. proxy_id r = pid) matching)))) groups
      in filter (\<lambda>(pid, n). n < maxRequests) counted)"

text \<open>
  What \<open>getAvailableProxies\<close> sees of the grouped query: the error of \<open>Pool.Query\<close>, or
  the rows that \<open>rows.Next()\<close> delivers. The code never reads \<open>rows.Err()\<close>, so when
  the query fails while its rows are read, the rows delivered until then are taken for
  the whole result.
\<close>

definition rate_limit_query :: "DB \<Rightarrow> int list \<Rightarrow> int \<Rightarrow> int \<Rightarrow> error + (int \<times> int) list" where
  "rate_limit_query db proxyIDs window maxRequests =
     (case rate_query db of
        QueryError \<Rightarrow> Inl RateQueryFailed
      | QueryOK \<Rightarrow> Inr (grouped_rows db proxyIDs window maxRequests)
      | RowsError n \<Rightarrow> Inr (take n (grouped_rows db proxyIDs window maxRequests)))"

text \<open>
  \<open>proxyHasRecentRequests\<close>: the query counts every request of the proxy in the
  window, successful or not.
\<close>

definition proxyHasRecentRequests :: "DB \<Rightarrow> RateLimitedSelector \<Rightarrow> int \<Rightarrow> error + bool" where
  "proxyHasRecentRequests db s proxyID =
     (if recent_query_fails db proxyID then Inl RecentQueryFailed
      else
        let n = int (length (filter (\<lambda>r. proxy_id r = proxyID \<and>
                                          timestamp r \<ge> window_start db (windowSeconds s))
                                    (proxy_requests db)))
        in Inr (n > 0))"

text \<open>The map \<open>availableProxyIDs\<close>: a missing key reads as \<open>false\<close>.\<close>

definition collect_available_ids :: "(int \<times> int) list \<Rightarrow> int \<Rightarrow> bool" where
  "collect_available_ids rows = fold (\<lambda>(proxyID, n) m. m(proxyID := True)) rows (\<lambda>_. False)"

definition getAvailableProxies ::
  "DB \<Rightarrow> RateLimitedSelector \<Rightarrow> Proxy list \<Rightarrow> error + Proxy list"
where
  "getAvailableProxies db s allProxies =
     (if length allProxies = 0 then Inl NoProxiesToCheck
      else
        case rate_limit_query db (map ID allProxies) (windowSeconds s) (maxRequestsPerMinute s) of
          Inl err \<Rightarrow> Inl RateQueryFailed
        | Inr rows \<Rightarrow>
            let availableProxyIDs = collect_available_ids rows
            in Inr (filter (\<lambda>proxy.
                      if availableProxyIDs (ID proxy) then True
                      else (case proxyHasRecentRequests db s (ID proxy) of
                              Inl err \<Rightarrow> False
                            | Inr hasRequests \<Rightarrow> \<not> hasRequests)) allProxies))"

text \<open>
  The first half of \<open>Select\<close>, after the check for an empty candidate list: the list
  \<open>availableProxies\<close> and the selector after the cache update. \<open>now\<close> is
  \<open>time.Now()\<close> at the validity check, \<open>now'\<close> at the cache update.
\<close>

definition select_available ::
  "DB \<Rightarrow> int \<Rightarrow> int \<Rightarrow> RateLimitedSelector \<Rightarrow> Proxy list \<times> RateLimitedSelector"
where
  "select_available db now now' s =
     (let allProxies = proxies s;
          cachedProxies = cache s;
          cacheValid = (now < cacheExpiry s \<and> length cachedProxies > 0)
      in if cacheValid then (cachedProxies, s)
         else
           let availableProxies = (case getAvailableProxies db s allProxies of
                                     Inl err \<Rightarrow> allProxies
                                   | Inr ps \<Rightarrow> ps)
           in (availableProxies,
               s\<lparr>cache := availableProxies, cacheExpiry := now' + cacheDuration s\<rparr>))"

definition RateLimitedSelector_Select ::
  "DB \<Rightarrow> int \<Rightarrow> int \<Rightarrow> RateLimitedSelector \<Rightarrow> (error + Proxy) \<times> RateLimitedSelector"
where
  "RateLimitedSelector_Select db now now' s =
     (if length (proxies s) = 0 then (Inl NoProxiesAvailable, s)
      else
        case select_available db now now' s of
          (availableProxies, s1) \<Rightarrow>
            if length availableProxies = 0 then (Inl AllRateLimited, s1)
            else
              let i = currentIndex s1 smod int (length availableProxies)
              in if i < 0 then (Inl IndexOutOfRange, s1)
                 else (Inr (availableProxies ! nat i),
                       s1\<lparr>currentIndex :=
                            (currentIndex s1 + 1) smod int (length availableProxies)\<rparr>))"

section \<open>The listener and its middleware chain\<close>

text \<open>
  The parts of \<open>url.URL\<close>, \<open>http.Request\<close> and \<open>http.Response\<close> that the handlers of
  \<open>New\<close> read or write.
\<close>

record URL =
  Scheme :: string
  URLHost :: string
  Path :: string
  RawQuery :: string

record Request =
  Method :: string
  ReqURL :: URL
  Host :: string
  Header :: "(string \<times> string) list"
  RequestURI :: string

record Response =
  StatusCode :: int
  Body :: string

text \<open>
  Modelled from the spec: \<open>AuthMiddleware\<close>, \<open>RateLimitMiddleware\<close> and
  \<open>UpstreamProxyHandler\<close> are not among the sources, and \<open>url.Parse\<close> and
  \<open>Response.Write\<close> are the standard library's. They are the parameters of the
  handlers: each middleware returns the response that short-circuits the chain, \<open>None\<close>
  for a nil response (continue); \<open>Response_Write\<close> gives the bytes of a response in
  wire format, status line first.
\<close>

record Env =
  authMiddleware_HandleRequest :: "Request \<Rightarrow> Response option"
  authMiddleware_HandleConnect :: "Request \<Rightarrow> Response option"
  rateLimitMw_HandleRequest :: "Request \<Rightarrow> Response option"
  rateLimitMw_HandleConnect :: "Request \<Rightarrow> Response option"
  handler_HandleRequest :: "Request \<Rightarrow> Response option"
  url_Parse :: "string \<Rightarrow> URL option"
  Response_Write :: "Response \<Rightarrow> string"

text \<open>
  The chains that serve a request: the rewrite of a path under the prefix, the CONNECT
  handlers, the library's non-proxy handler, the request handlers.
\<close>

datatype request_class = Passthrough | Connect | NonProxy | HTTPForward

text \<open>
  What serving one request does, in order: the branch taken on the path, the method or
  the form of the URL (\<open>Classified\<close>), each call of a middleware with its verdict, the
  call of the forwarding handler (\<open>handler.HandleRequest\<close>, or \<open>ConnectDial\<close> for an
  accepted CONNECT), and the response written.
\<close>

datatype event =
    Classified request_class
  | AuthMiddleware "Response option"
  | RateLimitMiddleware "Response option"
  | Handler Request
  | ConnectDial string
  | NonproxyHandler
  | RoundTrip
  | WriteResponse Response

definition is_hyperliquid_path :: "string \<Rightarrow> bool" where
  "is_hyperliquid_path p \<longleftrightarrow> p = ''/hyperliquid'' \<or> prefix ''/hyperliquid/'' p"

definition TrimPrefix :: "string \<Rightarrow> string \<Rightarrow> string" where
  "TrimPrefix s pre = (if prefix pre s then drop (length pre) s else s)"

text \<open>The string \<open>newURL\<close> that both handlers build for a request under the prefix.\<close>

definition hyperliquid_newURL :: "Request \<Rightarrow> string" where
  "hyperliquid_newURL r =
     (let trimmed = TrimPrefix (Path (ReqURL r)) ''/hyperliquid'';
          hyperliquidPath = (if trimmed = [] then ''/'' else trimmed);
          newURL = ''https://api.hyperliquid.xyz'' @ hyperliquidPath
      in if RawQuery (ReqURL r) \<noteq> [] then newURL @ ''?'' @ RawQuery (ReqURL r) else newURL)"

definition Header_Set :: "(string \<times> string) list \<Rightarrow> string \<Rightarrow> string \<Rightarrow> (string \<times> string) list" where
  "Header_Set h k v = (k, v) # filter (\<lambda>(k', _). k' \<noteq> k) h"

text \<open>
  The three steps that end the function given to \<open>DoFunc\<close>: authentication, rate
  limit, handler. When the handler returns no response the library makes the round
  trip itself.
\<close>

definition DoFunc_chain :: "Env \<Rightarrow> Request \<Rightarrow> event list" where
  "DoFunc_chain env req =
     (case authMiddleware_HandleRequest env req of
        Some resp \<Rightarrow> [AuthMiddleware (Some resp), WriteResponse resp]
      | None \<Rightarrow>
          (case rateLimitMw_HandleRequest env req of
             Some resp \<Rightarrow> [AuthMiddleware None, RateLimitMiddleware (Some resp), WriteResponse resp]
           | None \<Rightarrow>
               [AuthMiddleware None, RateLimitMiddleware None, Handler req,
                (case handler_HandleRequest env req of
                   Some resp \<Rightarrow> WriteResponse resp
                 | None \<Rightarrow> RoundTrip)]))"

text \<open>
  The function given to \<open>proxyServer.OnRequest().DoFunc\<close>: the rewrite of a request
  under the prefix, then the chain.
\<close>

definition OnRequest_DoFunc :: "Env \<Rightarrow> Request \<Rightarrow> event list" where
  "OnRequest_DoFunc env req =
     (if is_hyperliquid_path (Path (ReqURL req)) then
        Classified Passthrough #
        (case url_Parse env (hyperliquid_newURL req) of
           None \<Rightarrow> [WriteResponse \<lparr>StatusCode = 502, Body = ''Failed to parse hyperliquid URL''\<rparr>]
         | Some parsedURL \<Rightarrow>
             DoFunc_chain env
               (req\<lparr>ReqURL := parsedURL, Host := ''api.hyperliquid.xyz'',
                    Header := Header_Set (Header req) ''Host'' ''api.hyperliquid.xyz''\<rparr>))
      else DoFunc_chain env req)"

text \<open>
  The function given to \<open>proxyServer.OnRequest().HandleConnect\<close>; on \<open>OkConnect\<close> the
  library calls \<open>ConnectDial\<close>, on \<open>RejectConnect\<close> it writes \<open>ctx.Resp\<close>.
\<close>

definition OnRequest_HandleConnect :: "Env \<Rightarrow> Request \<Rightarrow> event list" where
  "OnRequest_HandleConnect env req =
     (case authMiddleware_HandleConnect env req of
        Some resp \<Rightarrow> [AuthMiddleware (Some resp), WriteResponse resp]
      | None \<Rightarrow>
          (case rateLimitMw_HandleConnect env req of
             Some resp \<Rightarrow> [AuthMiddleware None, RateLimitMiddleware (Some resp), WriteResponse resp]
           | None \<Rightarrow> [AuthMiddleware None, RateLimitMiddleware None, ConnectDial (Host req)]))"

text \<open>
  The dispatch of the library's \<open>ProxyHttpServer.ServeHTTP\<close>: CONNECT goes to the
  CONNECT handlers, a request whose URL is not absolute to the non-proxy handler, any
  other request to the request handlers.
\<close>

definition proxyServer_ServeHTTP :: "Env \<Rightarrow> Request \<Rightarrow> event list" where
  "proxyServer_ServeHTTP env r =
     (if Method r = ''CONNECT'' then Classified Connect # OnRequest_HandleConnect env r
      else if Scheme (ReqURL r) = [] then [Classified NonProxy, NonproxyHandler]
      else Classified HTTPForward # OnRequest_DoFunc env r)"

text \<open>The request \<open>newReq\<close> that \<open>wrapperHandler\<close> makes from the parsed URL.\<close>

definition hyperliquid_newReq :: "Request \<Rightarrow> URL \<Rightarrow> Request" where
  "hyperliquid_newReq r parsedURL =
     r\<lparr>ReqURL := parsedURL, Host := ''api.hyperliquid.xyz'',
       Header := Header_Set (Header r) ''Host'' ''api.hyperliquid.xyz'',
       RequestURI := []\<rparr>"

text \<open>\<open>http.Error\<close>: the status, and the message with a line feed as the body.\<close>

definition http_Error :: "string \<Rightarrow> int \<Rightarrow> Response" where
  "http_Error msg code = \<lparr>StatusCode = code, Body = msg @ [CHR 0x0A]\<rparr>"

text \<open>
  \<open>wrapperHandler\<close>, the handler of the listener's \<open>http.Server\<close>. The response of the
  rate limit is sent with \<open>resp.Write(w)\<close>: the bytes of the whole response go to the
  \<open>ResponseWriter\<close> as a body, so the client receives status 200 with the serialised
  response inside. The response of the handler is copied field by field.
\<close>

definition wrapperHandler :: "Env \<Rightarrow> Request \<Rightarrow> event list" where
  "wrapperHandler env r =
     (if is_hyperliquid_path (Path (ReqURL r)) then
        Classified Passthrough #
        (case url_Parse env (hyperliquid_newURL r) of
           None \<Rightarrow> [WriteResponse (http_Error ''Failed to parse hyperliquid URL'' 502)]
         | Some parsedURL \<Rightarrow>
             let newReq = hyperliquid_newReq r parsedURL
             in (case rateLimitMw_HandleRequest env newReq of
                   Some resp \<Rightarrow>
                     [RateLimitMiddleware (Some resp),
                      WriteResponse \<lparr>StatusCode = 200, Body = Response_Write env resp\<rparr>]
                 | None \<Rightarrow>
                     [RateLimitMiddleware None, Handler newReq,
                      WriteResponse (case handler_HandleRequest env newReq of
                                       Some resp \<Rightarrow> resp
                                     | None \<Rightarrow> http_Error ''No response from handler'' 500)]))
      else proxyServer_ServeHTTP env r)"

subsection \<open>Properties of a served request\<close>

fun is_forwarding :: "event \<Rightarrow> bool" where
  "is_forwarding (Handler req) = True"
| "is_forwarding (ConnectDial addr) = True"
| "is_forwarding e = False"

fun is_auth :: "event \<Rightarrow> bool" where
  "is_auth (AuthMiddleware v) = True"
| "is_auth e = False"

fun is_rate_limit :: "event \<Rightarrow> bool" where
  "is_rate_limit (RateLimitMiddleware v) = True"
| "is_rate_limit e = False"

fun is_classified :: "event \<Rightarrow> bool" where
  "is_classified (Classified c) = True"
| "is_classified e = False"

definition reaches_forwarding :: "event list \<Rightarrow> bool" where
  "reaches_forwarding tr \<longleftrightarrow> list_ex is_forwarding tr"

text \<open>The events before the first call of the forwarding handler.\<close>

definition before_forwarding :: "event list \<Rightarrow> event list" where
  "before_forwarding tr = takeWhile (\<lambda>e. \<not> is_forwarding e) tr"

text \<open>The rate limit let the request through before it was forwarded.\<close>

definition passed_rate_limit :: "event list \<Rightarrow> bool" where
  "passed_rate_limit tr \<longleftrightarrow> list_ex (\<lambda>e. e = RateLimitMiddleware None) (before_forwarding tr)"

text \<open>
  Authentication let the request through, after that the rate limit did, and only then
  was the request forwarded.
\<close>

definition passed_auth_then_rate_limit :: "event list \<Rightarrow> bool" where
  "passed_auth_then_rate_limit tr \<longleftrightarrow>
     list_ex (\<lambda>e. e = RateLimitMiddleware None)
       (dropWhile (\<lambda>e. e \<noteq> AuthMiddleware None) (before_forwarding tr))"

text \<open>The middlewares were called before the request was classified.\<close>

definition middlewares_before_classification :: "event list \<Rightarrow> bool" where
  "middlewares_before_classification tr \<longleftrightarrow>
     list_ex is_auth (takeWhile (\<lambda>e. \<not> is_classified e) tr) \<and>
     list_ex is_rate_limit (takeWhile (\<lambda>e. \<not> is_classified e) tr)"

text \<open>
  Authentication was called and let the request through before the first call of the
  rate limit.
\<close>

definition auth_passed_before_rate_limit :: "event list \<Rightarrow> bool" where
  "auth_passed_before_rate_limit tr \<longleftrightarrow>
     list_ex (\<lambda>e. e = AuthMiddleware None) (takeWhile (\<lambda>e. \<not> is_rate_limit e) tr)"

text \<open>
  A request the library takes for a proxy request: a CONNECT, or a request with an
  absolute URL.
\<close>

definition is_proxy_request :: "Request \<Rightarrow> bool" where
  "is_proxy_request r \<longleftrightarrow> Method r = ''CONNECT'' \<or> Scheme (ReqURL r) \<noteq> []"

text \<open>
  The verdicts of the two middlewares on a request: the CONNECT entry point for a
  CONNECT, the request entry point otherwise.
\<close>

definition auth_verdict :: "Env \<Rightarrow> Request \<Rightarrow> Response option" where
  "auth_verdict env r =
     (if Method r = ''CONNECT'' then authMiddleware_HandleConnect env r
      else authMiddleware_HandleRequest env r)"

definition rate_limit_verdict :: "Env \<Rightarrow> Request \<Rightarrow> Response option" where
  "rate_limit_verdict env r =
     (if Method r = ''CONNECT'' then rateLimitMw_HandleConnect env r
      else rateLimitMw_HandleRequest env r)"

section \<open>The properties, as the specification words them\<close>

text \<open>
  The four rotation filters of the selector contract, for one upstream. The success
  rate is the value the source computes.
\<close>

definition satisfies_rotation_filters :: "(real \<Rightarrow> real) \<Rightarrow> RotationSettings \<Rightarrow> Proxy \<Rightarrow> bool" where
  "satisfies_rotation_filters rnd st p \<longleftrightarrow>
     (Status p = ''active'' \<or> Status p = ''idle'') \<and>
     (AllowedProtocols st \<noteq> [] \<longrightarrow> Protocol p \<in> set (AllowedProtocols st)) \<and>
     (MaxResponseTime st > 0 \<longrightarrow> AvgResponseTime p \<le> MaxResponseTime st) \<and>
     (MinSuccessRate st > 0 \<and> Requests p > 0 \<longrightarrow> successRate rnd p \<ge> MinSuccessRate st)"

text \<open>
  Every candidate of a selector passes the filters of the selector's settings; a
  selector without settings has the status filter only.
\<close>

definition candidates_pass_filters :: "(real \<Rightarrow> real) \<Rightarrow> 'a BaseSelector_scheme \<Rightarrow> bool" where
  "candidates_pass_filters rnd s \<longleftrightarrow>
     (\<forall>p \<in> set (proxies s).
        case settings s of
          None \<Rightarrow> Status p = ''active'' \<or> Status p = ''idle''
        | Some st \<Rightarrow> satisfies_rotation_filters rnd st p)"

text \<open>
  The observed count of an upstream: its records with \<open>success = true\<close> over the last
  \<open>window\<close> seconds.
\<close>

definition successful_in_window :: "DB \<Rightarrow> int \<Rightarrow> int \<Rightarrow> int" where
  "successful_in_window db window pid =
     int (length (filter (\<lambda>r. proxy_id r = pid \<and> success r \<and>
                               timestamp r \<ge> window_start db window) (proxy_requests db)))"

text \<open>All records of an upstream over the last \<open>window\<close> seconds, successful or not.\<close>

definition requests_in_window :: "DB \<Rightarrow> int \<Rightarrow> int \<Rightarrow> int" where
  "requests_in_window db window pid =
     int (length (filter (\<lambda>r. proxy_id r = pid \<and>
                               timestamp r \<ge> window_start db window) (proxy_requests db)))"

section \<open>Concrete upstreams, stores and requests\<close>

definition exact :: "real \<Rightarrow> real" where
  "exact x = x"

definition proxyA :: Proxy where
  "proxyA = \<lparr>ID = 1, Address = ''10.0.0.1:8080'', Protocol = ''http'', Status = ''active'',
             Requests = 10, SuccessfulRequests = 9, FailedRequests = 1, AvgResponseTime = 100\<rparr>"

definition proxyB :: Proxy where
  "proxyB = \<lparr>ID = 2, Address = ''10.0.0.2:8080'', Protocol = ''http'', Status = ''idle'',
             Requests = 20, SuccessfulRequests = 19, FailedRequests = 1, AvgResponseTime = 900\<rparr>"

definition proxyC :: Proxy where
  "proxyC = \<lparr>ID = 3, Address = ''10.0.0.3:1080'', Protocol = ''socks5'', Status = ''active'',
             Requests = 10, SuccessfulRequests = 6, FailedRequests = 4, AvgResponseTime = 100\<rparr>"

definition proxyD :: Proxy where
  "proxyD = \<lparr>ID = 4, Address = ''10.0.0.4:8080'', Protocol = ''http'', Status = ''failed'',
             Requests = 5, SuccessfulRequests = 0, FailedRequests = 5, AvgResponseTime = 100\<rparr>"

text \<open>A store whose queries all succeed, with the given table and request log.\<close>

definition healthy_db :: "Proxy list \<Rightarrow> proxy_request list \<Rightarrow> int \<Rightarrow> DB" where
  "healthy_db table entries now =
     \<lparr>proxies_query_fails = False,
      proxies_table = map (\<lambda>p. \<lparr>columns = p, scan_ok = True\<rparr>) table,
      rate_query = QueryOK,
      recent_query_fails = (\<lambda>pid. False),
      proxy_requests = entries,
      db_now = now\<rparr>"

definition inventory_db :: DB where
  "inventory_db = healthy_db [proxyA, proxyB, proxyC, proxyD] [] 0"

definition http_only :: RotationSettings where
  "http_only = \<lparr>AllowedProtocols = [''http''], MaxResponseTime = 0, MinSuccessRate = 0\<rparr>"

definition loose_settings :: RotationSettings where
  "loose_settings = \<lparr>AllowedProtocols = [''http'', ''socks5''], MaxResponseTime = 1000, MinSuccessRate = 50\<rparr>"

definition tight_settings :: RotationSettings where
  "tight_settings = \<lparr>AllowedProtocols = [''http''], MaxResponseTime = 500, MinSuccessRate = 80\<rparr>"

definition https_only :: RotationSettings where
  "https_only = \<lparr>AllowedProtocols = [''https''], MaxResponseTime = 0, MinSuccessRate = 0\<rparr>"

definition base_ABC :: "RotationSettings \<Rightarrow> BaseSelector" where
  "base_ABC st = \<lparr>proxies = [proxyA, proxyB, proxyC], settings = Some st\<rparr>"

definition roundrobin_ABC :: "RotationSettings \<Rightarrow> int \<Rightarrow> RoundRobinSelector" where
  "roundrobin_ABC st i = \<lparr>proxies = [proxyA, proxyB, proxyC], settings = Some st, index = i\<rparr>"

definition timebased_ABC :: "RotationSettings \<Rightarrow> TimeBasedSelector" where
  "timebased_ABC st = \<lparr>proxies = [proxyA, proxyB, proxyC], settings = Some st, interval = 120\<rparr>"

text \<open>A rate-limited selector, 30 requests per 60 seconds, with the given candidates.\<close>

definition ratelimited_with :: "RotationSettings \<Rightarrow> Proxy list \<Rightarrow> RateLimitedSelector" where
  "ratelimited_with st ps = (NewRateLimitedSelector (Some st) 30 60)\<lparr>proxies := ps\<rparr>"

text \<open>
  One failed request of upstream 1, ten seconds before \<open>NOW()\<close>, and nothing else in
  the log.
\<close>

definition one_failure_db :: DB where
  "one_failure_db =
     healthy_db [proxyA] [\<lparr>proxy_id = 1, timestamp = 90000000, success = False\<rparr>] 100000000"

text \<open>An empty log, and every per-upstream query fails.\<close>

definition probe_failing_db :: DB where
  "probe_failing_db = (healthy_db [proxyA] [] 100000000)\<lparr>recent_query_fails := (\<lambda>pid. True)\<rparr>"

text \<open>\<open>Pool.Query\<close> returns an error for the grouped query.\<close>

definition rate_failing_db :: DB where
  "rate_failing_db = (healthy_db [proxyA, proxyB] [] 100000000)\<lparr>rate_query := QueryError\<rparr>"

text \<open>
  Upstream 2 has one success in the window; the grouped query fails while its rows
  are read, before the first row.
\<close>

definition rows_failing_db :: DB where
  "rows_failing_db =
     (healthy_db [proxyB] [\<lparr>proxy_id = 2, timestamp = 95000000, success = True\<rparr>] 100000000)
       \<lparr>rate_query := RowsError 0\<rparr>"

text \<open>Upstream 1 has two successes in the window, upstream 2 one, upstream 3 none.\<close>

definition busy_db :: DB where
  "busy_db =
     healthy_db [proxyA, proxyB, proxyC]
       [\<lparr>proxy_id = 1, timestamp = 90000000, success = True\<rparr>,
        \<lparr>proxy_id = 1, timestamp = 95000000, success = True\<rparr>,
        \<lparr>proxy_id = 2, timestamp = 95000000, success = True\<rparr>]
       100000000"

text \<open>
  The value of a hexadecimal digit, and the decoding of the percent escapes of a path;
  \<open>None\<close> is \<open>url.Parse\<close>'s error for an invalid escape.
\<close>

definition hexval :: "char \<Rightarrow> nat option" where
  "hexval c = map_of
     [(CHR ''0'', 0), (CHR ''1'', 1), (CHR ''2'', 2), (CHR ''3'', 3), (CHR ''4'', 4),
      (CHR ''5'', 5), (CHR ''6'', 6), (CHR ''7'', 7), (CHR ''8'', 8), (CHR ''9'', 9),
      (CHR ''a'', 10), (CHR ''b'', 11), (CHR ''c'', 12), (CHR ''d'', 13), (CHR ''e'', 14),
      (CHR ''f'', 15), (CHR ''A'', 10), (CHR ''B'', 11), (CHR ''C'', 12), (CHR ''D'', 13),
      (CHR ''E'', 14), (CHR ''F'', 15)] c"

fun unescape :: "string \<Rightarrow> string option" where
  "unescape [] = Some []"
| "unescape [c] = (if c = CHR ''%'' then None else Some [c])"
| "unescape [c, a] = (if c = CHR ''%'' then None else map_option ((#) c) (unescape [a]))"
| "unescape (c # a # b # rest) =
     (if c = CHR ''%'' then
        (case (hexval a, hexval b) of
           (Some x, Some y) \<Rightarrow> map_option ((#) (char_of (16 * x + y))) (unescape rest)
         | _ \<Rightarrow> None)
      else map_option ((#) c) (unescape (a # b # rest)))"

text \<open>
  \<open>url.Parse\<close> on the strings that the rewrite builds, \<open>https://api.hyperliquid.xyz\<close>
  followed by a path and a query: the query is what follows the first question mark,
  the path is decoded, and an invalid escape in the path is an error.
\<close>

definition parse_hyperliquid :: "string \<Rightarrow> URL option" where
  "parse_hyperliquid u =
     (if prefix ''https://api.hyperliquid.xyz'' u then
        (let rest = drop 27 u;
             rawpath = takeWhile (\<lambda>c. c \<noteq> CHR ''?'') rest;
             query = drop 1 (dropWhile (\<lambda>c. c \<noteq> CHR ''?'') rest)
         in case unescape rawpath of
              None \<Rightarrow> None
            | Some p \<Rightarrow> Some \<lparr>Scheme = ''https'', URLHost = ''api.hyperliquid.xyz'',
                              Path = p, RawQuery = query\<rparr>)
      else None)"

text \<open>The status line of a response, which begins its wire format.\<close>

definition status_line :: "Response \<Rightarrow> string" where
  "status_line resp =
     (let n = nat (StatusCode resp)
      in ''HTTP/1.1 '' @ map (\<lambda>d. char_of (48 + d)) [n div 100 mod 10, n div 10 mod 10, n mod 10])"

text \<open>
  An environment in which authentication rejects every request with 407, the rate
  limit lets every request through, and the handler answers 200.
\<close>

definition auth_rejects_env :: Env where
  "auth_rejects_env =
     \<lparr>authMiddleware_HandleRequest = (\<lambda>r. Some \<lparr>StatusCode = 407, Body = ''Proxy Authentication Required''\<rparr>),
      authMiddleware_HandleConnect = (\<lambda>r. Some \<lparr>StatusCode = 407, Body = ''Proxy Authentication Required''\<rparr>),
      rateLimitMw_HandleRequest = (\<lambda>r. None),
      rateLimitMw_HandleConnect = (\<lambda>r. None),
      handler_HandleRequest = (\<lambda>r. Some \<lparr>StatusCode = 200, Body = ''ok''\<rparr>),
      url_Parse = parse_hyperliquid,
      Response_Write = (\<lambda>resp. status_line resp @ [CHR 0x0D, CHR 0x0A, CHR 0x0D, CHR 0x0A] @ Body resp)\<rparr>"

text \<open>The same environment, with an authentication that lets every request through.\<close>

definition open_env :: Env where
  "open_env =
     auth_rejects_env\<lparr>authMiddleware_HandleRequest := (\<lambda>r. None),
                      authMiddleware_HandleConnect := (\<lambda>r. None)\<rparr>"

text \<open>
  Authentication lets every request through and the rate limit rejects every request
  with 429.
\<close>

definition limiting_env :: Env where
  "limiting_env =
     open_env\<lparr>rateLimitMw_HandleRequest := (\<lambda>r. Some \<lparr>StatusCode = 429, Body = ''Too Many Requests''\<rparr>),
              rateLimitMw_HandleConnect := (\<lambda>r. Some \<lparr>StatusCode = 429, Body = ''Too Many Requests''\<rparr>)\<rparr>"

definition hyperliquid_request :: Request where
  "hyperliquid_request =
     \<lparr>Method = ''POST'',
      ReqURL = \<lparr>Scheme = [], URLHost = [], Path = ''/hyperliquid/info'', RawQuery = []\<rparr>,
      Host = ''localhost:8000'', Header = [], RequestURI = ''/hyperliquid/info''\<rparr>"

text \<open>
  The request \<open>GET /hyperliquid/%25zz\<close>: the server decodes the path to
  \<open>/hyperliquid/%zz\<close>.
\<close>

definition bad_escape_request :: Request where
  "bad_escape_request =
     \<lparr>Method = ''GET'',
      ReqURL = \<lparr>Scheme = [], URLHost = [], Path = ''/hyperliquid/%zz'', RawQuery = []\<rparr>,
      Host = ''localhost:8000'', Header = [], RequestURI = ''/hyperliquid/%25zz''\<rparr>"

definition proxy_request_example :: Request where
  "proxy_request_example =
     \<lparr>Method = ''GET'',
      ReqURL = \<lparr>Scheme = ''http'', URLHost = ''example.com'', Path = ''/index.html'', RawQuery = []\<rparr>,
      Host = ''example.com'', Header = [], RequestURI = ''http://example.com/index.html''\<rparr>"

definition connect_request_example :: Request where
  "connect_request_example =
     \<lparr>Method = ''CONNECT'',
      ReqURL = \<lparr>Scheme = [], URLHost = ''example.com:443'', Path = [], RawQuery = []\<rparr>,
      Host = ''example.com:443'', Header = [], RequestURI = ''example.com:443''\<rparr>"

text \<open>A request that is no proxy request: \<open>GET /status\<close>, sent to the listener itself.\<close>

definition direct_request_example :: Request where
  "direct_request_example =
     \<lparr>Method = ''GET'',
      ReqURL = \<lparr>Scheme = [], URLHost = [], Path = ''/status'', RawQuery = []\<rparr>,
      Host = ''localhost:8000'', Header = [], RequestURI = ''/status''\<rparr>"

text \<open>\<open>http_only\<close> with the protocol \<open>http\<close> removed from its \<open>allowed_protocols\<close>.\<close>

definition http_removed :: RotationSettings where
  "http_removed = http_only\<lparr>AllowedProtocols := remove1 ''http'' (AllowedProtocols http_only)\<rparr>"

text \<open>No protocol filter and a \<open>max_response_time\<close> of 500 ms; the same, lowered to 0.\<close>

definition capped_500 :: RotationSettings where
  "capped_500 = \<lparr>AllowedProtocols = [], MaxResponseTime = 500, MinSuccessRate = 0\<rparr>"

definition capped_0 :: RotationSettings where
  "capped_0 = capped_500\<lparr>MaxResponseTime := 0\<rparr>"

section \<open>Loading and refreshing\<close>

lemma protocol_allowed_iff: "protocol_allowed ps proto \<longleftrightarrow> proto \<in> set ps"
  by (induction ps) auto

lemma scan_rows_eq:
  "scan_rows rnd st rs acc =
     (if \<forall>r \<in> set rs. scan_ok r
      then Inr (acc @ filter (passes_filters rnd st) (map columns rs))
      else Inl ScanFailed)"
  by (induction rs arbitrary: acc) auto

lemma load_Inr_iff:
  "loadActiveProxiesWithSettings rnd db st = Inr ps \<longleftrightarrow>
     \<not> proxies_query_fails db \<and> (\<forall>r \<in> set (active_rows db). scan_ok r) \<and>
     ps = filter (passes_filters rnd st) (map columns (active_rows db)) \<and> ps \<noteq> []"
  by (auto simp: loadActiveProxiesWithSettings_def scan_rows_eq filter_map)

lemma active_rows_status:
  "r \<in> set (active_rows db) \<Longrightarrow> Status (columns r) = ''active'' \<or> Status (columns r) = ''idle''"
  by (simp add: active_rows_def)

lemma passes_filters_Some:
  "passes_filters rnd (Some st) p \<longleftrightarrow>
     (AllowedProtocols st \<noteq> [] \<longrightarrow> Protocol p \<in> set (AllowedProtocols st)) \<and>
     (MaxResponseTime st > 0 \<longrightarrow> AvgResponseTime p \<le> MaxResponseTime st) \<and>
     (MinSuccessRate st > 0 \<and> Requests p > 0 \<longrightarrow> successRate rnd p \<ge> MinSuccessRate st)"
  by (auto simp: passes_filters_def protocol_allowed_iff)

lemma load_candidates_pass:
  assumes "loadActiveProxiesWithSettings rnd db (settings s) = Inr ps"
  shows "candidates_pass_filters rnd (s\<lparr>proxies := ps\<rparr>)"
proof (cases "settings s")
  case None
  with assms show ?thesis
    unfolding load_Inr_iff candidates_pass_filters_def
    by (auto dest: active_rows_status)
next
  case (Some st)
  with assms show ?thesis
    unfolding load_Inr_iff candidates_pass_filters_def satisfies_rotation_filters_def
    by (auto simp: passes_filters_Some dest: active_rows_status)
qed

lemma candidates_pass_filters_cong:
  "proxies s = proxies s' \<Longrightarrow> settings s = settings s' \<Longrightarrow>
   candidates_pass_filters rnd s = candidates_pass_filters rnd s'"
  by (simp add: candidates_pass_filters_def)

text \<open>The stores and settings of the examples, evaluated.\<close>

lemma active_rows_inventory:
  "active_rows inventory_db =
     map (\<lambda>p. \<lparr>columns = p, scan_ok = True\<rparr>) [proxyA, proxyB, proxyC]"
  by (simp add: active_rows_def inventory_db_def healthy_db_def proxyA_def proxyB_def proxyC_def proxyD_def)

lemma successRate_exact_eq:
  "successRate exact p = real_of_int (SuccessfulRequests p) / real_of_int (Requests p) * 100"
  by (simp add: successRate_def exact_def)

lemma successRate_exact:
  "successRate exact proxyA = 90" "successRate exact proxyB = 95" "successRate exact proxyC = 60"
  by (simp_all add: successRate_def exact_def proxyA_def proxyB_def proxyC_def)

lemma passes_http_only:
  "passes_filters rnd (Some http_only) proxyA" "passes_filters rnd (Some http_only) proxyB"
  "\<not> passes_filters rnd (Some http_only) proxyC"
  by (simp_all add: passes_filters_def http_only_def proxyA_def proxyB_def proxyC_def)

lemma passes_https_only:
  "\<not> passes_filters rnd (Some https_only) proxyA" "\<not> passes_filters rnd (Some https_only) proxyB"
  "\<not> passes_filters rnd (Some https_only) proxyC"
  by (simp_all add: passes_filters_def https_only_def proxyA_def proxyB_def proxyC_def)

lemma inventory_not_failing: "\<not> proxies_query_fails inventory_db"
  by (simp add: inventory_db_def healthy_db_def)

lemma load_http_only:
  "loadActiveProxiesWithSettings rnd inventory_db (Some http_only) = Inr [proxyA, proxyB]"
  by (simp add: loadActiveProxiesWithSettings_def inventory_not_failing active_rows_inventory
      passes_http_only)

lemma load_https_only:
  "loadActiveProxiesWithSettings rnd inventory_db (Some https_only) = Inl NoProxiesMatchingFilters"
  by (simp add: loadActiveProxiesWithSettings_def inventory_not_failing active_rows_inventory
      passes_https_only)

text \<open>
  C10. When loading the candidates fails, \<open>Refresh\<close> of each of the five selectors
  returns that error and the selector is what it was before: candidates, round-robin
  cursor and rate-limit cache are unchanged. A load in which the query succeeds and
  every row scans, but no row passes the filters, is such a failure.
\<close>

theorem Refresh_failure_keeps_selector:
  "(loadActiveProxiesWithSettings rnd db (settings rs) = Inl e \<longrightarrow>
      RandomSelector_Refresh rnd db rs = (Some e, rs)) \<and>
   (loadActiveProxiesWithSettings rnd db (settings rr) = Inl e \<longrightarrow>
      RoundRobinSelector_Refresh rnd db rr = (Some e, rr)) \<and>
   (loadActiveProxiesWithSettings rnd db (settings lc) = Inl e \<longrightarrow>
      LeastConnectionsSelector_Refresh rnd db lc = (Some e, lc)) \<and>
   (loadActiveProxiesWithSettings rnd db (settings tb) = Inl e \<longrightarrow>
      TimeBasedSelector_Refresh rnd db tb = (Some e, tb)) \<and>
   (loadActiveProxiesWithSettings rnd db (settings rl) = Inl e \<longrightarrow>
      RateLimitedSelector_Refresh rnd db rl = (Some e, rl)) \<and>
   (\<not> proxies_query_fails db \<and>
    (\<forall>r \<in> set (active_rows db). scan_ok r \<and> \<not> passes_filters rnd st (columns r)) \<longrightarrow>
      loadActiveProxiesWithSettings rnd db st = Inl NoProxiesMatchingFilters)"
proof -
  have zero: "loadActiveProxiesWithSettings rnd db st = Inl NoProxiesMatchingFilters"
    if "\<not> proxies_query_fails db"
      and "\<forall>r \<in> set (active_rows db). scan_ok r \<and> \<not> passes_filters rnd st (columns r)"
  proof -
    have "filter (passes_filters rnd st) (map columns (active_rows db)) = []"
      using that(2) by (simp add: filter_empty_conv)
    with that show ?thesis
      by (simp add: loadActiveProxiesWithSettings_def scan_rows_eq)
  qed
  show ?thesis
    using zero
    by (simp add: RandomSelector_Refresh_def RoundRobinSelector_Refresh_def
        LeastConnectionsSelector_Refresh_def TimeBasedSelector_Refresh_def
        RateLimitedSelector_Refresh_def)
qed

theorem Refresh_failure_keeps_selector_witness:
  "loadActiveProxiesWithSettings exact inventory_db (Some https_only) = Inl NoProxiesMatchingFilters \<and>
   RandomSelector_Refresh exact inventory_db (base_ABC https_only)
     = (Some NoProxiesMatchingFilters, base_ABC https_only) \<and>
   RoundRobinSelector_Refresh exact inventory_db (roundrobin_ABC https_only 2)
     = (Some NoProxiesMatchingFilters, roundrobin_ABC https_only 2) \<and>
   LeastConnectionsSelector_Refresh exact inventory_db (base_ABC https_only)
     = (Some NoProxiesMatchingFilters, base_ABC https_only) \<and>
   TimeBasedSelector_Refresh exact inventory_db (timebased_ABC https_only)
     = (Some NoProxiesMatchingFilters, timebased_ABC https_only) \<and>
   RateLimitedSelector_Refresh exact inventory_db
       ((ratelimited_with https_only [proxyA, proxyB, proxyC])\<lparr>currentIndex := 2, cache := [proxyB], cacheExpiry := 5\<rparr>)
     = (Some NoProxiesMatchingFilters,
        (ratelimited_with https_only [proxyA, proxyB, proxyC])\<lparr>currentIndex := 2, cache := [proxyB], cacheExpiry := 5\<rparr>)"
  using Refresh_failure_keeps_selector [of exact inventory_db "base_ABC https_only"
      NoProxiesMatchingFilters "roundrobin_ABC https_only 2" "base_ABC https_only"
      "timebased_ABC https_only"
      "(ratelimited_with https_only [proxyA, proxyB, proxyC])\<lparr>currentIndex := 2, cache := [proxyB], cacheExpiry := 5\<rparr>"
      "Some https_only"]
  by (simp add: load_https_only base_ABC_def roundrobin_ABC_def timebased_ABC_def
      ratelimited_with_def NewRateLimitedSelector_def)

text \<open>
  C7. After a successful \<open>Refresh\<close> of each of the five selectors, every candidate
  passes the rotation filters of the selector's settings: its status is active or idle,
  its protocol is in a non-empty \<open>allowed_protocols\<close>, its average response time is at
  most a positive \<open>max_response_time\<close>, and, for a positive \<open>min_success_rate\<close> and an
  upstream with requests, its success rate is at least \<open>min_success_rate\<close>.
\<close>

theorem Refresh_candidates_pass_filters:
  "(fst (RandomSelector_Refresh rnd db rs) = None \<longrightarrow>
      candidates_pass_filters rnd (snd (RandomSelector_Refresh rnd db rs))) \<and>
   (fst (RoundRobinSelector_Refresh rnd db rr) = None \<longrightarrow>
      candidates_pass_filters rnd (snd (RoundRobinSelector_Refresh rnd db rr))) \<and>
   (fst (LeastConnectionsSelector_Refresh rnd db lc) = None \<longrightarrow>
      candidates_pass_filters rnd (snd (LeastConnectionsSelector_Refresh rnd db lc))) \<and>
   (fst (TimeBasedSelector_Refresh rnd db tb) = None \<longrightarrow>
      candidates_pass_filters rnd (snd (TimeBasedSelector_Refresh rnd db tb))) \<and>
   (fst (RateLimitedSelector_Refresh rnd db rl) = None \<longrightarrow>
      candidates_pass_filters rnd (snd (RateLimitedSelector_Refresh rnd db rl)))"
proof -
  have "candidates_pass_filters rnd (snd (RandomSelector_Refresh rnd db rs))"
    if "fst (RandomSelector_Refresh rnd db rs) = None"
    using that load_candidates_pass [of rnd db rs]
    by (auto simp: RandomSelector_Refresh_def split: sum.splits)
  moreover have "candidates_pass_filters rnd (snd (RoundRobinSelector_Refresh rnd db rr))"
    if "fst (RoundRobinSelector_Refresh rnd db rr) = None"
    using that load_candidates_pass [of rnd db rr]
    by (auto simp: RoundRobinSelector_Refresh_def candidates_pass_filters_def split: sum.splits)
  moreover have "candidates_pass_filters rnd (snd (LeastConnectionsSelector_Refresh rnd db lc))"
    if "fst (LeastConnectionsSelector_Refresh rnd db lc) = None"
    using that load_candidates_pass [of rnd db lc]
    by (auto simp: LeastConnectionsSelector_Refresh_def split: sum.splits)
  moreover have "candidates_pass_filters rnd (snd (TimeBasedSelector_Refresh rnd db tb))"
    if "fst (TimeBasedSelector_Refresh rnd db tb) = None"
    using that load_candidates_pass [of rnd db tb]
    by (auto simp: TimeBasedSelector_Refresh_def split: sum.splits)
  moreover have "candidates_pass_filters rnd (snd (RateLimitedSelector_Refresh rnd db rl))"
    if "fst (RateLimitedSelector_Refresh rnd db rl) = None"
    using that load_candidates_pass [of rnd db rl]
    by (auto simp: RateLimitedSelector_Refresh_def candidates_pass_filters_def split: sum.splits)
  ultimately show ?thesis by blast
qed

theorem Refresh_candidates_pass_filters_witness:
  "fst (RandomSelector_Refresh exact inventory_db (base_ABC http_only)) = None \<and>
   fst (RoundRobinSelector_Refresh exact inventory_db (roundrobin_ABC http_only 2)) = None \<and>
   fst (LeastConnectionsSelector_Refresh exact inventory_db (base_ABC http_only)) = None \<and>
   fst (TimeBasedSelector_Refresh exact inventory_db (timebased_ABC http_only)) = None \<and>
   fst (RateLimitedSelector_Refresh exact inventory_db (ratelimited_with http_only [proxyC])) = None \<and>
   proxies (snd (RoundRobinSelector_Refresh exact inventory_db (roundrobin_ABC http_only 2)))
     = [proxyA, proxyB] \<and>
   candidates_pass_filters exact (snd (RandomSelector_Refresh exact inventory_db (base_ABC http_only))) \<and>
   candidates_pass_filters exact (snd (RoundRobinSelector_Refresh exact inventory_db (roundrobin_ABC http_only 2))) \<and>
   candidates_pass_filters exact (snd (LeastConnectionsSelector_Refresh exact inventory_db (base_ABC http_only))) \<and>
   candidates_pass_filters exact (snd (TimeBasedSelector_Refresh exact inventory_db (timebased_ABC http_only))) \<and>
   candidates_pass_filters exact (snd (RateLimitedSelector_Refresh exact inventory_db (ratelimited_with http_only [proxyC])))"
proof -
  have ok:
    "fst (RandomSelector_Refresh exact inventory_db (base_ABC http_only)) = None"
    "fst (RoundRobinSelector_Refresh exact inventory_db (roundrobin_ABC http_only 2)) = None"
    "fst (LeastConnectionsSelector_Refresh exact inventory_db (base_ABC http_only)) = None"
    "fst (TimeBasedSelector_Refresh exact inventory_db (timebased_ABC http_only)) = None"
    "fst (RateLimitedSelector_Refresh exact inventory_db (ratelimited_with http_only [proxyC])) = None"
    "proxies (snd (RoundRobinSelector_Refresh exact inventory_db (roundrobin_ABC http_only 2)))
       = [proxyA, proxyB]"
    by (simp_all add: RandomSelector_Refresh_def RoundRobinSelector_Refresh_def
        LeastConnectionsSelector_Refresh_def TimeBasedSelector_Refresh_def
        RateLimitedSelector_Refresh_def load_http_only base_ABC_def roundrobin_ABC_def
        timebased_ABC_def ratelimited_with_def NewRateLimitedSelector_def)
  show ?thesis
    using ok Refresh_candidates_pass_filters [of exact inventory_db "base_ABC http_only"
        "roundrobin_ABC http_only 2" "base_ABC http_only" "timebased_ABC http_only"
        "ratelimited_with http_only [proxyC]"]
    by simp
qed

section \<open>Tightening the filters\<close>

lemma passes_http_removed:
  "passes_filters rnd (Some http_removed) proxyA" "passes_filters rnd (Some http_removed) proxyB"
  "passes_filters rnd (Some http_removed) proxyC"
  by (simp_all add: passes_filters_def http_removed_def http_only_def)

lemma passes_loose_settings:
  "passes_filters exact (Some loose_settings) proxyA"
  "passes_filters exact (Some loose_settings) proxyB"
  "passes_filters exact (Some loose_settings) proxyC"
  by (simp_all add: passes_filters_def loose_settings_def successRate_exact)
     (simp_all add: proxyA_def proxyB_def proxyC_def)

lemma passes_tight_settings:
  "passes_filters exact (Some tight_settings) proxyA"
  "\<not> passes_filters exact (Some tight_settings) proxyB"
  "\<not> passes_filters exact (Some tight_settings) proxyC"
  by (simp_all add: passes_filters_def tight_settings_def successRate_exact)
     (simp_all add: proxyA_def proxyB_def proxyC_def)

lemma proxies_differ:
  "proxyA \<noteq> proxyB" "proxyA \<noteq> proxyC" "proxyB \<noteq> proxyC"
  by (simp_all add: proxyA_def proxyB_def proxyC_def)

lemma passes_capped:
  "passes_filters rnd (Some capped_500) proxyA" "\<not> passes_filters rnd (Some capped_500) proxyB"
  "passes_filters rnd (Some capped_500) proxyC"
  "passes_filters rnd (Some capped_0) proxyA" "passes_filters rnd (Some capped_0) proxyB"
  "passes_filters rnd (Some capped_0) proxyC"
  by (simp_all add: passes_filters_def capped_500_def capped_0_def proxyA_def proxyB_def proxyC_def)

text \<open>
  C8, as stated, fails, in two ways. The protocol \<open>http\<close> is removed from the non-empty
  list \<open>allowed_protocols = [http]\<close>: the list is then empty, which switches the
  protocol filter off, and the socks5 upstream joins the candidates. The positive
  \<open>max_response_time = 500\<close> is lowered to 0: that switches the response-time filter
  off, and the upstream with 900 ms joins the candidates.
\<close>

theorem switching_a_filter_off_enlarges_candidates:
  "AllowedProtocols http_only \<noteq> [] \<and>
   AllowedProtocols http_removed = remove1 ''http'' (AllowedProtocols http_only) \<and>
   MaxResponseTime http_removed = MaxResponseTime http_only \<and>
   MinSuccessRate http_removed = MinSuccessRate http_only \<and>
   loadActiveProxiesWithSettings exact inventory_db (Some http_only) = Inr [proxyA, proxyB] \<and>
   loadActiveProxiesWithSettings exact inventory_db (Some http_removed)
     = Inr [proxyA, proxyB, proxyC] \<and>
   \<not> set [proxyA, proxyB, proxyC] \<subseteq> set [proxyA, proxyB] \<and>
   0 < MaxResponseTime capped_500 \<and> MaxResponseTime capped_0 < MaxResponseTime capped_500 \<and>
   AllowedProtocols capped_0 = AllowedProtocols capped_500 \<and>
   MinSuccessRate capped_0 = MinSuccessRate capped_500 \<and>
   loadActiveProxiesWithSettings exact inventory_db (Some capped_500) = Inr [proxyA, proxyC] \<and>
   loadActiveProxiesWithSettings exact inventory_db (Some capped_0)
     = Inr [proxyA, proxyB, proxyC] \<and>
   \<not> set [proxyA, proxyB, proxyC] \<subseteq> set [proxyA, proxyC]"
proof -
  have "loadActiveProxiesWithSettings exact inventory_db (Some http_removed)
          = Inr [proxyA, proxyB, proxyC]"
    by (simp add: loadActiveProxiesWithSettings_def inventory_not_failing active_rows_inventory
        passes_http_removed)
  moreover have "\<not> set [proxyA, proxyB, proxyC] \<subseteq> set [proxyA, proxyB]"
    "\<not> set [proxyA, proxyB, proxyC] \<subseteq> set [proxyA, proxyC]"
    using proxies_differ proxies_differ [symmetric] by simp_all
  moreover have "loadActiveProxiesWithSettings exact inventory_db (Some capped_500)
          = Inr [proxyA, proxyC]"
    "loadActiveProxiesWithSettings exact inventory_db (Some capped_0)
          = Inr [proxyA, proxyB, proxyC]"
    by (simp_all add: loadActiveProxiesWithSettings_def inventory_not_failing active_rows_inventory
        passes_capped)
  ultimately show ?thesis
    by (simp add: load_http_only)
       (simp add: http_removed_def http_only_def capped_500_def capped_0_def)
qed

text \<open>
  C8, amended. For one and the same table of upstreams, let the settings be tightened:
  \<open>min_success_rate\<close> is raised; a positive \<open>max_response_time\<close> is lowered to a value
  that is still positive; protocols are removed from a non-empty \<open>allowed_protocols\<close>
  and the list stays non-empty. Then, if the load under the tighter settings succeeds,
  the load under the looser settings succeeds too, and the candidates under the tighter
  settings are among those under the looser ones, in the same order.
\<close>

theorem tightening_filters_cannot_enlarge_candidates:
  assumes "MinSuccessRate loose \<le> MinSuccessRate tight"
    and "MaxResponseTime loose > 0 \<longrightarrow>
           0 < MaxResponseTime tight \<and> MaxResponseTime tight \<le> MaxResponseTime loose"
    and "AllowedProtocols loose \<noteq> [] \<longrightarrow>
           AllowedProtocols tight \<noteq> [] \<and> set (AllowedProtocols tight) \<subseteq> set (AllowedProtocols loose)"
    and "loadActiveProxiesWithSettings rnd db (Some tight) = Inr ps2"
  shows "\<exists>ps1. loadActiveProxiesWithSettings rnd db (Some loose) = Inr ps1 \<and>
               set ps2 \<subseteq> set ps1 \<and> subseq ps2 ps1"
proof -
  have mono: "passes_filters rnd (Some tight) p \<Longrightarrow> passes_filters rnd (Some loose) p" for p
    using assms(1-3) unfolding passes_filters_Some by force
  let ?cs = "map columns (active_rows db)"
  have ps2: "ps2 = filter (passes_filters rnd (Some tight)) ?cs" "ps2 \<noteq> []"
    and ok: "\<not> proxies_query_fails db" "\<forall>r \<in> set (active_rows db). scan_ok r"
    using assms(4) unfolding load_Inr_iff by auto
  let ?ps1 = "filter (passes_filters rnd (Some loose)) ?cs"
  have eq: "ps2 = filter (passes_filters rnd (Some tight)) ?ps1"
    unfolding ps2(1) filter_filter using mono by (metis (mono_tags, lifting))
  have sub: "subseq ps2 ?ps1"
    by (subst eq) (rule subseq_filter_left)
  have "set ps2 \<subseteq> set ?ps1"
    by (subst eq) (rule filter_is_subset)
  moreover have "?ps1 \<noteq> []"
  proof
    assume "?ps1 = []"
    hence "filter (passes_filters rnd (Some tight)) ?ps1 = []"
      by (simp only: filter.simps)
    with eq ps2(2) show False by simp
  qed
  ultimately show ?thesis
    using ok sub by (auto simp: load_Inr_iff)
qed

theorem tightening_filters_cannot_enlarge_candidates_witness:
  "MinSuccessRate loose_settings \<le> MinSuccessRate tight_settings \<and>
   0 < MaxResponseTime tight_settings \<and>
   MaxResponseTime tight_settings \<le> MaxResponseTime loose_settings \<and>
   AllowedProtocols tight_settings \<noteq> [] \<and>
   set (AllowedProtocols tight_settings) \<subseteq> set (AllowedProtocols loose_settings) \<and>
   loadActiveProxiesWithSettings exact inventory_db (Some tight_settings) = Inr [proxyA] \<and>
   loadActiveProxiesWithSettings exact inventory_db (Some loose_settings)
     = Inr [proxyA, proxyB, proxyC] \<and>
   set [proxyA] \<subseteq> set [proxyA, proxyB, proxyC] \<and> subseq [proxyA] [proxyA, proxyB, proxyC]"
proof -
  have h1: "MinSuccessRate loose_settings \<le> MinSuccessRate tight_settings"
    and h2: "MaxResponseTime loose_settings > 0 \<longrightarrow>
               0 < MaxResponseTime tight_settings \<and>
               MaxResponseTime tight_settings \<le> MaxResponseTime loose_settings"
    and h3: "AllowedProtocols loose_settings \<noteq> [] \<longrightarrow>
               AllowedProtocols tight_settings \<noteq> [] \<and>
               set (AllowedProtocols tight_settings) \<subseteq> set (AllowedProtocols loose_settings)"
    by (simp_all add: loose_settings_def tight_settings_def)
  have h4: "loadActiveProxiesWithSettings exact inventory_db (Some tight_settings) = Inr [proxyA]"
    by (simp add: loadActiveProxiesWithSettings_def inventory_not_failing active_rows_inventory
        passes_tight_settings)
  have l: "loadActiveProxiesWithSettings exact inventory_db (Some loose_settings)
             = Inr [proxyA, proxyB, proxyC]"
    by (simp add: loadActiveProxiesWithSettings_def inventory_not_failing active_rows_inventory
        passes_loose_settings)
  from tightening_filters_cannot_enlarge_candidates [OF h1 h2 h3 h4]
  have "set [proxyA] \<subseteq> set [proxyA, proxyB, proxyC] \<and> subseq [proxyA] [proxyA, proxyB, proxyC]"
    unfolding l by simp
  with h4 l show ?thesis
    by (simp add: loose_settings_def tight_settings_def)
qed

section \<open>Round-robin rotation\<close>

lemma smod_nonneg: "0 \<le> a \<Longrightarrow> 0 < b \<Longrightarrow> a smod b = a mod (b::int)"
  by (simp add: signed_modulo_int_def sgn_if)

lemma RoundRobinSelector_Select_step:
  assumes "0 \<le> index s" "index s < int (length (proxies s))"
  shows "RoundRobinSelector_Select s =
           (Inr (proxies s ! nat (index s)),
            s\<lparr>index := int (Suc (nat (index s)) mod length (proxies s))\<rparr>)"
proof -
  have "(index s + 1) smod int (length (proxies s)) = (index s + 1) mod int (length (proxies s))"
    using assms by (intro smod_nonneg) auto
  also have "\<dots> = int (Suc (nat (index s)) mod length (proxies s))"
    using assms by (simp add: zmod_int add.commute)
  finally show ?thesis
    using assms by (auto simp: RoundRobinSelector_Select_def)
qed

lemma upt_Suc_shift: "[0..<Suc n] = 0 # map Suc [0..<n]"
  by (simp add: upt_conv_Cons map_Suc_upt del: upt_Suc)

lemma sequential_selects_nth:
  assumes "0 \<le> index s" "index s < int (length (proxies s))"
  shows "sequential_selects n s =
           (map (\<lambda>j. Inr (proxies s ! ((nat (index s) + j) mod length (proxies s)))) [0..<n],
            s\<lparr>index := int ((nat (index s) + n) mod length (proxies s))\<rparr>)"
  using assms
proof (induction n arbitrary: s)
  case 0
  then show ?case by simp
next
  case (Suc n)
  let ?N = "length (proxies s)"
  let ?i = "nat (index s)"
  let ?s' = "s\<lparr>index := int (Suc ?i mod ?N)\<rparr>"
  have N: "0 < ?N" and i: "?i < ?N"
    using Suc.prems by auto
  have step: "RoundRobinSelector_Select s = (Inr (proxies s ! ?i), ?s')"
    using Suc.prems by (rule RoundRobinSelector_Select_step)
  have inv': "0 \<le> index ?s'" "index ?s' < int (length (proxies ?s'))"
    using N by simp_all
  have shift: "(Suc ?i mod ?N + j) mod ?N = (?i + Suc j) mod ?N" for j
    by (simp add: mod_add_left_eq)
  have rest: "sequential_selects n ?s' =
      (map (\<lambda>j. Inr (proxies s ! ((?i + Suc j) mod ?N))) [0..<n],
       s\<lparr>index := int ((?i + Suc n) mod ?N)\<rparr>)"
    using Suc.IH [OF inv'] by (simp add: shift)
  have here: "?i mod ?N = ?i"
    using i by simp
  show ?case
    unfolding sequential_selects.simps step upt_Suc_shift
    by (simp add: rest here comp_def del: upt_Suc)
qed

lemma count_list_map_Inr: "count_list (map Inr ys) (Inr c :: 'e + 'b) = count_list ys c"
  by (induction ys) auto

lemma count_list_distinct: "distinct xs \<Longrightarrow> c \<in> set xs \<Longrightarrow> count_list xs c = 1"
  by (induction xs) auto

lemma count_list_rotate: "count_list (rotate m xs) c = count_list xs c"
proof -
  let ?n = "m mod length xs"
  have "count_list (rotate m xs) c = count_list (drop ?n xs) c + count_list (take ?n xs) c"
    by (simp add: rotate_drop_take)
  also have "\<dots> = count_list (take ?n xs @ drop ?n xs) c"
    by (simp only: count_list_append add.commute)
  also have "take ?n xs @ drop ?n xs = xs"
    by (rule append_take_drop_id)
  finally show ?thesis .
qed

lemma rotate_as_map:
  "rotate m xs = map (\<lambda>j. xs ! ((m + j) mod length xs)) [0..<length xs]"
  by (rule nth_equalityI) (simp_all add: nth_rotate)

lemma count_list_cycles:
  "count_list (map (\<lambda>j. xs ! ((m + j) mod length xs)) [0..<k * length xs]) c
     = k * count_list xs c"
proof (induction k)
  case 0
  then show ?case by simp
next
  case (Suc k)
  let ?N = "length xs"
  let ?f = "\<lambda>j. xs ! ((m + j) mod ?N)"
  have "[0..<k * ?N + ?N] = [0..<k * ?N] @ [k * ?N..<k * ?N + ?N]"
    by (rule upt_add_eq_append) simp
  moreover have "[k * ?N..<k * ?N + ?N] = map (\<lambda>j. k * ?N + j) [0..<?N]"
    using map_add_upt [of "k * ?N" ?N] by (simp add: add.commute)
  ultimately have split: "[0..<Suc k * ?N] = [0..<k * ?N] @ map (\<lambda>j. k * ?N + j) [0..<?N]"
    by (simp add: add.commute)
  have period: "?f (k * ?N + j) = ?f j" for j
    by (simp add: add.left_commute [of m] )
  have "map ?f [0..<Suc k * ?N] = map ?f [0..<k * ?N] @ map ?f [0..<?N]"
    unfolding split by (simp add: comp_def period del: upt_Suc)
  also have "map ?f [0..<?N] = rotate m xs"
    by (rule rotate_as_map [symmetric])
  finally show ?case
    using Suc.IH by (simp add: count_list_rotate)
qed

text \<open>
  C5. With at least one candidate and the cursor inside the list, \<open>Select\<close> of the
  round-robin selector returns \<open>candidates[index]\<close> and sets the cursor to
  \<open>(index + 1) mod len\<close>; the \<open>j\<close>-th of \<open>n\<close> sequential calls returns
  \<open>candidates[(index + j) mod len]\<close>; and over \<open>k * len\<close> sequential calls every candidate
  is returned \<open>k\<close> times for each of its places in the list, so exactly \<open>k\<close> times when the
  candidates are distinct.
\<close>

theorem roundrobin_rotation:
  assumes "1 \<le> length (proxies s)" and "0 \<le> index s" and "index s < int (length (proxies s))"
  shows "RoundRobinSelector_Select s =
           (Inr (proxies s ! nat (index s)),
            s\<lparr>index := (index s + 1) mod int (length (proxies s))\<rparr>) \<and>
         fst (sequential_selects n s) =
           map (\<lambda>j. Inr (proxies s ! ((nat (index s) + j) mod length (proxies s)))) [0..<n] \<and>
         (\<forall>c. count_list (fst (sequential_selects (k * length (proxies s)) s)) (Inr c)
                = k * count_list (proxies s) c) \<and>
         (distinct (proxies s) \<longrightarrow>
            (\<forall>c \<in> set (proxies s).
               count_list (fst (sequential_selects (k * length (proxies s)) s)) (Inr c) = k))"
proof -
  let ?N = "length (proxies s)"
  have "int (Suc (nat (index s)) mod ?N) = (index s + 1) mod int ?N"
    using assms(2) by (simp add: zmod_int add.commute)
  hence one: "RoundRobinSelector_Select s =
           (Inr (proxies s ! nat (index s)), s\<lparr>index := (index s + 1) mod int ?N\<rparr>)"
    using RoundRobinSelector_Select_step [OF assms(2,3)] by simp
  have many: "fst (sequential_selects n s) =
      map (\<lambda>j. Inr (proxies s ! ((nat (index s) + j) mod ?N))) [0..<n]" for n
    by (simp add: sequential_selects_nth [OF assms(2,3)])
  have counts: "count_list (fst (sequential_selects (k * ?N) s)) (Inr c)
                  = k * count_list (proxies s) c" for c
  proof -
    have "fst (sequential_selects (k * ?N) s)
            = map Inr (map (\<lambda>j. proxies s ! ((nat (index s) + j) mod ?N)) [0..<k * ?N])"
      unfolding many by (simp add: comp_def)
    thus ?thesis
      by (simp only: count_list_map_Inr count_list_cycles)
  qed
  have "count_list (fst (sequential_selects (k * ?N) s)) (Inr c) = k"
    if "distinct (proxies s)" "c \<in> set (proxies s)" for c
    using that counts [of c] by (simp add: count_list_distinct)
  with one many counts show ?thesis by blast
qed

theorem roundrobin_rotation_witness:
  "1 \<le> length (proxies (roundrobin_ABC http_only 0)) \<and>
   0 \<le> index (roundrobin_ABC http_only 0) \<and>
   index (roundrobin_ABC http_only 0) < int (length (proxies (roundrobin_ABC http_only 0))) \<and>
   fst (RoundRobinSelector_Select (roundrobin_ABC http_only 0)) = Inr proxyA \<and>
   index (snd (RoundRobinSelector_Select (roundrobin_ABC http_only 0))) = 1 \<and>
   fst (sequential_selects 7 (roundrobin_ABC http_only 0)) =
     [Inr proxyA, Inr proxyB, Inr proxyC, Inr proxyA, Inr proxyB, Inr proxyC, Inr proxyA] \<and>
   distinct (proxies (roundrobin_ABC http_only 0)) \<and>
   count_list (fst (sequential_selects (2 * 3) (roundrobin_ABC http_only 0))) (Inr proxyA) = 2 \<and>
   count_list (fst (sequential_selects (2 * 3) (roundrobin_ABC http_only 0))) (Inr proxyB) = 2 \<and>
   count_list (fst (sequential_selects (2 * 3) (roundrobin_ABC http_only 0))) (Inr proxyC) = 2"
proof -
  have h: "1 \<le> length (proxies (roundrobin_ABC http_only 0))"
    "0 \<le> index (roundrobin_ABC http_only 0)"
    "index (roundrobin_ABC http_only 0) < int (length (proxies (roundrobin_ABC http_only 0)))"
    by (simp_all add: roundrobin_ABC_def)
  have d: "distinct (proxies (roundrobin_ABC http_only 0))"
    using proxies_differ proxies_differ [symmetric] by (simp add: roundrobin_ABC_def)
  have seven: "[0..<7] = [0, 1, 2, 3, 4, 5, 6::nat]"
    by (simp add: upt_rec)
  note r = roundrobin_rotation [OF h, of 7 2]
  have one: "fst (RoundRobinSelector_Select (roundrobin_ABC http_only 0)) = Inr proxyA \<and>
             index (snd (RoundRobinSelector_Select (roundrobin_ABC http_only 0))) = 1"
    using r by (simp add: roundrobin_ABC_def)
  have "fst (sequential_selects 7 (roundrobin_ABC http_only 0)) =
          map (\<lambda>j. Inr (proxies (roundrobin_ABC http_only 0) !
                 ((nat (index (roundrobin_ABC http_only 0)) + j) mod
                   length (proxies (roundrobin_ABC http_only 0))))) [0..<7]"
    using r by blast
  hence many: "fst (sequential_selects 7 (roundrobin_ABC http_only 0)) =
      [Inr proxyA, Inr proxyB, Inr proxyC, Inr proxyA, Inr proxyB, Inr proxyC, Inr proxyA]"
    unfolding seven by (simp add: roundrobin_ABC_def)
  from r d have "\<forall>c \<in> set (proxies (roundrobin_ABC http_only 0)).
      count_list (fst (sequential_selects
        (2 * length (proxies (roundrobin_ABC http_only 0))) (roundrobin_ABC http_only 0))) (Inr c) = 2"
    by blast
  hence counts:
    "count_list (fst (sequential_selects (2 * 3) (roundrobin_ABC http_only 0))) (Inr proxyA) = 2"
    "count_list (fst (sequential_selects (2 * 3) (roundrobin_ABC http_only 0))) (Inr proxyB) = 2"
    "count_list (fst (sequential_selects (2 * 3) (roundrobin_ABC http_only 0))) (Inr proxyC) = 2"
    by (simp_all add: roundrobin_ABC_def)
  from h d one many counts show ?thesis
    by blast
qed

section \<open>The cache of the rate-limited selector\<close>

lemma sdiv_nonneg: "0 \<le> a \<Longrightarrow> 0 < b \<Longrightarrow> a sdiv b = a div (b::int)"
  by (simp add: signed_divide_int_def sgn_if)

lemma wrap64_id: "- (2 ^ 63) \<le> x \<Longrightarrow> x < 2 ^ 63 \<Longrightarrow> wrap64 x = x"
  by (simp add: wrap64_def)

text \<open>
  C4. A rate-limited selector constructed with \<open>window_s \<ge> 1\<close> has the cache duration
  \<open>max (window_s / 5) 0\<close> seconds, clamped to at most 2 seconds: 2 seconds for
  \<open>window_s \<ge> 10\<close>, and \<open>window_s / 5\<close> seconds (integer division) for \<open>window_s < 10\<close>.
\<close>

theorem NewRateLimitedSelector_cacheDuration:
  assumes "1 \<le> window"
  shows "cacheDuration (NewRateLimitedSelector st maxRequests window)
           = min (max (window div 5) 0) 2 * Second \<and>
         (10 \<le> window \<longrightarrow>
            cacheDuration (NewRateLimitedSelector st maxRequests window) = 2 * Second) \<and>
         (window < 10 \<longrightarrow>
            cacheDuration (NewRateLimitedSelector st maxRequests window) = (window div 5) * Second)"
proof (cases "window < 10")
  case True
  have q: "window sdiv 5 = window div 5"
    using assms by (intro sdiv_nonneg) auto
  have range: "0 \<le> window div 5" "window div 5 \<le> 1"
    using assms True by auto
  hence "- (2 ^ 63) \<le> (window div 5) * Second" "(window div 5) * Second < 2 ^ 63"
    by (auto simp: Second_def)
  hence "wrap64 ((window div 5) * Second) = (window div 5) * Second"
    by (rule wrap64_id)
  with True range show ?thesis
    by (simp add: NewRateLimitedSelector_def q)
next
  case False
  hence "2 \<le> window div 5"
    by auto
  with False show ?thesis
    by (simp add: NewRateLimitedSelector_def)
qed

theorem NewRateLimitedSelector_cacheDuration_witness:
  "(1::int) \<le> 7 \<and> (1::int) \<le> 60 \<and> (1::int) \<le> 3 \<and>
   cacheDuration (NewRateLimitedSelector None 30 7) = 1 * Second \<and>
   cacheDuration (NewRateLimitedSelector None 30 60) = 2 * Second \<and>
   cacheDuration (NewRateLimitedSelector None 30 3) = 0"
proof -
  have h: "(1::int) \<le> 7" "(1::int) \<le> 60" "(1::int) \<le> 3"
    by simp_all
  from NewRateLimitedSelector_cacheDuration [OF h(1), of None 30]
    NewRateLimitedSelector_cacheDuration [OF h(2), of None 30]
    NewRateLimitedSelector_cacheDuration [OF h(3), of None 30]
  show ?thesis by simp
qed

section \<open>Selection under the rate limit\<close>

lemma fold_available_ids:
  "fold (\<lambda>(proxyID, n) m. m(proxyID := True)) rows m0 pid \<longleftrightarrow> m0 pid \<or> pid \<in> fst ` set rows"
  by (induction rows arbitrary: m0) (auto split: prod.splits)

lemma collect_available_ids_iff: "collect_available_ids rows pid \<longleftrightarrow> pid \<in> fst ` set rows"
  by (simp add: collect_available_ids_def fold_available_ids)

lemma rate_limit_query_rows:
  assumes "rate_query db = QueryOK"
  shows "\<exists>rows. rate_limit_query db ids window maxRequests = Inr rows \<and>
           (\<forall>pid. pid \<in> fst ` set rows \<longleftrightarrow>
                    pid \<in> set ids \<and> 0 < successful_in_window db window pid \<and>
                    successful_in_window db window pid < maxRequests)"
proof -
  define matching where "matching = filter (\<lambda>r. proxy_id r \<in> set ids \<and>
      timestamp r \<ge> window_start db window \<and> success r) (proxy_requests db)"
  define counted where "counted = map (\<lambda>pid. (pid, int (length (filter (\<lambda>r. proxy_id r = pid) matching))))
      (remdups (map proxy_id matching))"
  have q: "rate_limit_query db ids window maxRequests
             = Inr (filter (\<lambda>(pid, n). n < maxRequests) counted)"
    using assms
    by (simp add: rate_limit_query_def grouped_rows_def matching_def counted_def Let_def)
  have cnt: "int (length (filter (\<lambda>r. proxy_id r = pid) matching))
               = successful_in_window db window pid" if "pid \<in> set ids" for pid
  proof -
    have "filter (\<lambda>r. proxy_id r = pid) matching
            = filter (\<lambda>r. proxy_id r = pid \<and> success r \<and> timestamp r \<ge> window_start db window)
                (proxy_requests db)"
      unfolding matching_def filter_filter using that by (intro filter_cong) auto
    thus ?thesis by (simp add: successful_in_window_def)
  qed
  have grp: "pid \<in> set (map proxy_id matching) \<longleftrightarrow>
               pid \<in> set ids \<and> 0 < successful_in_window db window pid" for pid
  proof -
    have "0 < successful_in_window db window pid \<longleftrightarrow>
            (\<exists>r \<in> set (proxy_requests db). proxy_id r = pid \<and> success r \<and>
                timestamp r \<ge> window_start db window)"
      by (auto simp: successful_in_window_def filter_empty_conv)
    thus ?thesis by (auto simp: matching_def)
  qed
  have "pid \<in> fst ` set (filter (\<lambda>(pid, n). n < maxRequests) counted) \<longleftrightarrow>
          pid \<in> set ids \<and> 0 < successful_in_window db window pid \<and>
          successful_in_window db window pid < maxRequests" for pid
  proof -
    have "pid \<in> fst ` set (filter (\<lambda>(pid, n). n < maxRequests) counted) \<longleftrightarrow>
            pid \<in> set (map proxy_id matching) \<and>
            int (length (filter (\<lambda>r. proxy_id r = pid) matching)) < maxRequests"
      by (force simp: counted_def)
    thus ?thesis using grp cnt by auto
  qed
  with q show ?thesis by blast
qed

lemma proxyHasRecentRequests_eq:
  "proxyHasRecentRequests db s pid =
     (if recent_query_fails db pid then Inl RecentQueryFailed
      else Inr (0 < requests_in_window db (windowSeconds s) pid))"
  by (simp add: proxyHasRecentRequests_def requests_in_window_def Let_def)

text \<open>
  What \<open>getAvailableProxies\<close> computes when no query fails: the candidates with at
  least one and fewer than \<open>maxRequestsPerMinute\<close> successful requests in the window,
  and the candidates with no request at all in the window.
\<close>

lemma getAvailableProxies_healthy:
  assumes "allProxies \<noteq> []" and "rate_query db = QueryOK"
    and "\<forall>p \<in> set allProxies. \<not> recent_query_fails db (ID p)"
  shows "getAvailableProxies db s allProxies =
           Inr (filter (\<lambda>p. (0 < successful_in_window db (windowSeconds s) (ID p) \<and>
                              successful_in_window db (windowSeconds s) (ID p) < maxRequestsPerMinute s) \<or>
                             requests_in_window db (windowSeconds s) (ID p) = 0) allProxies)"
proof -
  obtain rows where rows:
    "rate_limit_query db (map ID allProxies) (windowSeconds s) (maxRequestsPerMinute s) = Inr rows"
    "\<And>pid. pid \<in> fst ` set rows \<longleftrightarrow>
        pid \<in> set (map ID allProxies) \<and> 0 < successful_in_window db (windowSeconds s) pid \<and>
        successful_in_window db (windowSeconds s) pid < maxRequestsPerMinute s"
    using rate_limit_query_rows [OF assms(2)] by blast
  have nonneg: "0 \<le> requests_in_window db (windowSeconds s) pid" for pid
    by (simp add: requests_in_window_def)
  have "filter (\<lambda>proxy. if collect_available_ids rows (ID proxy) then True
                         else (case proxyHasRecentRequests db s (ID proxy) of
                                 Inl err \<Rightarrow> False | Inr hasRequests \<Rightarrow> \<not> hasRequests)) allProxies
        = filter (\<lambda>p. (0 < successful_in_window db (windowSeconds s) (ID p) \<and>
                        successful_in_window db (windowSeconds s) (ID p) < maxRequestsPerMinute s) \<or>
                       requests_in_window db (windowSeconds s) (ID p) = 0) allProxies"
  proof (rule filter_cong [OF refl])
    fix p assume p: "p \<in> set allProxies"
    have "collect_available_ids rows (ID p) \<longleftrightarrow>
            0 < successful_in_window db (windowSeconds s) (ID p) \<and>
            successful_in_window db (windowSeconds s) (ID p) < maxRequestsPerMinute s"
      using p by (auto simp: collect_available_ids_iff rows(2))
    moreover have "proxyHasRecentRequests db s (ID p)
                     = Inr (0 < requests_in_window db (windowSeconds s) (ID p))"
      using p assms(3) by (simp add: proxyHasRecentRequests_eq)
    ultimately show "(if collect_available_ids rows (ID p) then True
                      else (case proxyHasRecentRequests db s (ID p) of
                              Inl err \<Rightarrow> False | Inr hasRequests \<Rightarrow> \<not> hasRequests))
                   = ((0 < successful_in_window db (windowSeconds s) (ID p) \<and>
                       successful_in_window db (windowSeconds s) (ID p) < maxRequestsPerMinute s) \<or>
                      requests_in_window db (windowSeconds s) (ID p) = 0)"
      using nonneg [of "ID p"] by auto
  qed
  thus ?thesis
    using assms(1) rows(1) by (simp add: getAvailableProxies_def)
qed

lemma select_available_currentIndex:
  "currentIndex (snd (select_available db now now' s)) = currentIndex s"
  by (simp add: select_available_def Let_def)

text \<open>The last step of \<open>Select\<close>: the element at \<open>currentIndex % len\<close>.\<close>

lemma smod_index:
  assumes "0 \<le> i" and "xs \<noteq> []"
  shows "0 \<le> i smod int (length xs)" and "nat (i smod int (length xs)) < length xs"
proof -
  have "i smod int (length xs) = i mod int (length xs)"
    using assms by (intro smod_nonneg) auto
  moreover have "0 \<le> i mod int (length xs)" "i mod int (length xs) < int (length xs)"
    using assms by auto
  ultimately show "0 \<le> i smod int (length xs)" "nat (i smod int (length xs)) < length xs"
    by auto
qed

lemma RateLimitedSelector_Select_result:
  assumes "0 \<le> currentIndex s"
  shows "fst (RateLimitedSelector_Select db now now' s) =
           (if proxies s = [] then Inl NoProxiesAvailable
            else if fst (select_available db now now' s) = [] then Inl AllRateLimited
            else Inr (fst (select_available db now now' s) !
                   nat (currentIndex s smod int (length (fst (select_available db now now' s))))))"
proof -
  obtain av s1 where sa: "select_available db now now' s = (av, s1)"
    by (cases "select_available db now now' s")
  have idx: "currentIndex s1 = currentIndex s"
    using select_available_currentIndex [of db now now' s] sa by simp
  show ?thesis
  proof (cases "proxies s = [] \<or> av = []")
    case True
    then show ?thesis
      by (auto simp: RateLimitedSelector_Select_def sa)
  next
    case False
    hence "0 \<le> currentIndex s smod int (length av)"
      using smod_index(1) [OF assms, of av] by simp
    with False show ?thesis
      by (simp add: RateLimitedSelector_Select_def sa idx Let_def)
  qed
qed

text \<open>The stores of the examples, evaluated.\<close>

lemma ratelimited_with_fields:
  "proxies (ratelimited_with st ps) = ps"
  "windowSeconds (ratelimited_with st ps) = 60"
  "maxRequestsPerMinute (ratelimited_with st ps) = 30"
  "currentIndex (ratelimited_with st ps) = 0"
  "cache (ratelimited_with st ps) = []"
  "cacheExpiry (ratelimited_with st ps) = 0"
  by (simp_all add: ratelimited_with_def NewRateLimitedSelector_def)

lemma healthy_db_fields:
  "rate_query (healthy_db table entries now) = QueryOK"
  "recent_query_fails (healthy_db table entries now) pid = False"
  "proxy_requests (healthy_db table entries now) = entries"
  "db_now (healthy_db table entries now) = now"
  by (simp_all add: healthy_db_def)

lemma one_failure_counts:
  "successful_in_window one_failure_db 60 1 = 0"
  "requests_in_window one_failure_db 60 1 = 1"
  by (simp_all add: successful_in_window_def requests_in_window_def window_start_def
      one_failure_db_def healthy_db_fields)

lemma busy_counts:
  "successful_in_window busy_db 60 1 = 2" "requests_in_window busy_db 60 1 = 2"
  "successful_in_window busy_db 60 2 = 1" "requests_in_window busy_db 60 2 = 1"
  "successful_in_window busy_db 60 3 = 0" "requests_in_window busy_db 60 3 = 0"
  by (simp_all add: successful_in_window_def requests_in_window_def window_start_def
      busy_db_def healthy_db_fields)

lemma proxy_ids: "ID proxyA = 1" "ID proxyB = 2" "ID proxyC = 3"
  by (simp_all add: proxyA_def proxyB_def proxyC_def)

text \<open>
  C1. The claim holds of the specification's count, not of the code. Upstream 1 has one
  failed request and no successful request in the window: its observed count is 0, below
  \<open>max_requests = 30\<close>. The grouped query has no group for it, the second query counts
  the failed request, and the upstream is left out: the available list is empty and
  \<open>Select\<close> fails with \<open>AllRateLimited\<close>.
\<close>

theorem zero_success_candidate_excluded:
  "successful_in_window one_failure_db (windowSeconds (ratelimited_with http_only [proxyA])) (ID proxyA)
     = 0 \<and>
   maxRequestsPerMinute (ratelimited_with http_only [proxyA]) = 30 \<and>
   rate_query one_failure_db = QueryOK \<and> \<not> recent_query_fails one_failure_db (ID proxyA) \<and>
   getAvailableProxies one_failure_db (ratelimited_with http_only [proxyA]) [proxyA] = Inr [] \<and>
   RateLimitedSelector_Select one_failure_db 1 1 (ratelimited_with http_only [proxyA])
     = (Inl AllRateLimited,
        (ratelimited_with http_only [proxyA])\<lparr>cache := [], cacheExpiry := 1 + 2 * Second\<rparr>)"
proof -
  have ok: "rate_query one_failure_db = QueryOK"
    "\<forall>p \<in> set [proxyA]. \<not> recent_query_fails one_failure_db (ID p)"
    by (simp_all add: one_failure_db_def healthy_db_fields)
  have av: "getAvailableProxies one_failure_db (ratelimited_with http_only [proxyA]) [proxyA] = Inr []"
    by (subst getAvailableProxies_healthy [OF _ ok])
       (simp_all add: ratelimited_with_fields proxy_ids one_failure_counts)
  have "select_available one_failure_db 1 1 (ratelimited_with http_only [proxyA])
          = ([], (ratelimited_with http_only [proxyA])\<lparr>cache := [], cacheExpiry := 1 + 2 * Second\<rparr>)"
    by (simp add: select_available_def ratelimited_with_fields av Let_def)
       (simp add: ratelimited_with_def NewRateLimitedSelector_def)
  hence "RateLimitedSelector_Select one_failure_db 1 1 (ratelimited_with http_only [proxyA])
     = (Inl AllRateLimited,
        (ratelimited_with http_only [proxyA])\<lparr>cache := [], cacheExpiry := 1 + 2 * Second\<rparr>)"
    by (simp add: RateLimitedSelector_Select_def ratelimited_with_fields)
  with ok av show ?thesis
    by (simp add: ratelimited_with_fields proxy_ids one_failure_counts)
qed

text \<open>
  C2. With a cursor that is not negative, \<open>Select\<close> of the rate-limited selector fails
  with \<open>NoProxiesAvailable\<close> exactly when the candidate list is empty, fails with
  \<open>AllRateLimited\<close> exactly when the candidate list is not empty and the available list
  is, and in every other case returns a member of the available list.
\<close>

theorem RateLimitedSelector_Select_outcomes:
  assumes "0 \<le> currentIndex s"
  shows "(fst (RateLimitedSelector_Select db now now' s) = Inl NoProxiesAvailable
            \<longleftrightarrow> proxies s = []) \<and>
         (fst (RateLimitedSelector_Select db now now' s) = Inl AllRateLimited
            \<longleftrightarrow> proxies s \<noteq> [] \<and> fst (select_available db now now' s) = []) \<and>
         (proxies s \<noteq> [] \<and> fst (select_available db now now' s) \<noteq> [] \<longrightarrow>
            (\<exists>p. fst (RateLimitedSelector_Select db now now' s) = Inr p \<and>
                 p \<in> set (fst (select_available db now now' s))))"
proof -
  let ?av = "fst (select_available db now now' s)"
  have "?av ! nat (currentIndex s smod int (length ?av)) \<in> set ?av" if "?av \<noteq> []"
    using smod_index(2) [OF assms that] by (rule nth_mem)
  thus ?thesis
    unfolding RateLimitedSelector_Select_result [OF assms] by auto
qed

theorem RateLimitedSelector_Select_outcomes_witness:
  "0 \<le> currentIndex (ratelimited_with http_only []) \<and>
   fst (RateLimitedSelector_Select busy_db 1 1 (ratelimited_with http_only []))
     = Inl NoProxiesAvailable \<and>
   0 \<le> currentIndex ((ratelimited_with http_only [proxyA])\<lparr>maxRequestsPerMinute := 2\<rparr>) \<and>
   fst (select_available busy_db 1 1
         ((ratelimited_with http_only [proxyA])\<lparr>maxRequestsPerMinute := 2\<rparr>)) = [] \<and>
   fst (RateLimitedSelector_Select busy_db 1 1
         ((ratelimited_with http_only [proxyA])\<lparr>maxRequestsPerMinute := 2\<rparr>))
     = Inl AllRateLimited \<and>
   0 \<le> currentIndex ((ratelimited_with http_only [proxyA, proxyB, proxyC])\<lparr>maxRequestsPerMinute := 2\<rparr>) \<and>
   fst (select_available busy_db 1 1
         ((ratelimited_with http_only [proxyA, proxyB, proxyC])\<lparr>maxRequestsPerMinute := 2\<rparr>))
     = [proxyB, proxyC] \<and>
   (\<exists>p. fst (RateLimitedSelector_Select busy_db 1 1
              ((ratelimited_with http_only [proxyA, proxyB, proxyC])\<lparr>maxRequestsPerMinute := 2\<rparr>))
           = Inr p \<and> p \<in> set [proxyB, proxyC])"
proof -
  let ?s0 = "ratelimited_with http_only []"
  let ?s1 = "(ratelimited_with http_only [proxyA])\<lparr>maxRequestsPerMinute := 2\<rparr>"
  let ?s3 = "(ratelimited_with http_only [proxyA, proxyB, proxyC])\<lparr>maxRequestsPerMinute := 2\<rparr>"
  have h: "0 \<le> currentIndex ?s0" "0 \<le> currentIndex ?s1" "0 \<le> currentIndex ?s3"
    by (simp_all add: ratelimited_with_fields)
  have ok: "rate_query busy_db = QueryOK" "\<forall>p \<in> set ps. \<not> recent_query_fails busy_db (ID p)"
    for ps :: "Proxy list"
    by (simp_all add: busy_db_def healthy_db_fields)
  have "getAvailableProxies busy_db ?s1 [proxyA] = Inr []"
    by (subst getAvailableProxies_healthy [OF _ ok])
       (simp_all add: ratelimited_with_fields proxy_ids busy_counts)
  hence av1: "fst (select_available busy_db 1 1 ?s1) = []"
    by (simp add: select_available_def ratelimited_with_fields Let_def)
  have "getAvailableProxies busy_db ?s3 [proxyA, proxyB, proxyC] = Inr [proxyB, proxyC]"
    by (subst getAvailableProxies_healthy [OF _ ok])
       (simp_all add: ratelimited_with_fields proxy_ids busy_counts)
  hence av3: "fst (select_available busy_db 1 1 ?s3) = [proxyB, proxyC]"
    by (simp add: select_available_def ratelimited_with_fields Let_def)
  from RateLimitedSelector_Select_outcomes [OF h(1), of busy_db 1 1]
  have r0: "fst (RateLimitedSelector_Select busy_db 1 1 ?s0) = Inl NoProxiesAvailable"
    by (simp add: ratelimited_with_fields)
  from RateLimitedSelector_Select_outcomes [OF h(2), of busy_db 1 1]
  have r1: "fst (RateLimitedSelector_Select busy_db 1 1 ?s1) = Inl AllRateLimited"
    unfolding av1 by (simp add: ratelimited_with_fields)
  from RateLimitedSelector_Select_outcomes [OF h(3), of busy_db 1 1]
  have r3: "\<exists>p. fst (RateLimitedSelector_Select busy_db 1 1 ?s3) = Inr p \<and> p \<in> set [proxyB, proxyC]"
    unfolding av3 by (simp add: ratelimited_with_fields)
  from h av1 av3 r0 r1 r3 show ?thesis
    by blast
qed

text \<open>
  C6. The claim holds of the specification's selector, not of the code. The log is
  empty and the grouped query succeeds with no row; the second query, which
  \<open>getAvailableProxies\<close> makes for every candidate outside the rows, fails. The store
  error is not returned, the candidate is left out instead of all candidates being
  taken, and \<open>Select\<close> fails with \<open>AllRateLimited\<close>.
\<close>

theorem probe_failure_fails_select:
  "recent_query_fails probe_failing_db (ID proxyA) \<and>
   proxies (ratelimited_with http_only [proxyA]) \<noteq> [] \<and>
   proxy_requests probe_failing_db = [] \<and>
   getAvailableProxies probe_failing_db (ratelimited_with http_only [proxyA]) [proxyA] = Inr [] \<and>
   fst (RateLimitedSelector_Select probe_failing_db 1 1 (ratelimited_with http_only [proxyA]))
     = Inl AllRateLimited"
proof -
  have db: "recent_query_fails probe_failing_db (ID proxyA)" "proxy_requests probe_failing_db = []"
    "rate_query probe_failing_db = QueryOK"
    by (simp_all add: probe_failing_db_def healthy_db_def)
  have "rate_limit_query probe_failing_db [1] 60 30 = Inr []"
    using db by (simp add: rate_limit_query_def grouped_rows_def)
  hence av: "getAvailableProxies probe_failing_db (ratelimited_with http_only [proxyA]) [proxyA] = Inr []"
    using db(1)
    by (simp add: getAvailableProxies_def ratelimited_with_fields proxy_ids
        collect_available_ids_def proxyHasRecentRequests_eq)
  hence "fst (select_available probe_failing_db 1 1 (ratelimited_with http_only [proxyA])) = []"
    by (simp add: select_available_def ratelimited_with_fields Let_def)
  hence "fst (RateLimitedSelector_Select probe_failing_db 1 1 (ratelimited_with http_only [proxyA]))
           = Inl AllRateLimited"
    by (simp add: RateLimitedSelector_Select_result ratelimited_with_fields)
  with db av show ?thesis
    by (simp add: ratelimited_with_fields)
qed

text \<open>
  A second store failure that \<open>Select\<close> turns into \<open>AllRateLimited\<close>: the grouped
  query fails while its rows are read. Upstream 2 has one success, below the limit of
  30, but its row is not delivered; the second query finds its request, and the
  upstream is left out.
\<close>

lemma rows_error_fails_select:
  "rate_query rows_failing_db = RowsError 0 \<and>
   successful_in_window rows_failing_db 60 (ID proxyB) = 1 \<and>
   getAvailableProxies rows_failing_db (ratelimited_with http_only [proxyB]) [proxyB] = Inr [] \<and>
   fst (RateLimitedSelector_Select rows_failing_db 1 1 (ratelimited_with http_only [proxyB]))
     = Inl AllRateLimited"
proof -
  have db: "rate_query rows_failing_db = RowsError 0"
    "\<not> recent_query_fails rows_failing_db 2"
    by (simp_all add: rows_failing_db_def healthy_db_def)
  have cnt: "successful_in_window rows_failing_db 60 2 = 1"
    "requests_in_window rows_failing_db 60 2 = 1"
    by (simp_all add: successful_in_window_def requests_in_window_def window_start_def
        rows_failing_db_def healthy_db_def)
  have "rate_limit_query rows_failing_db [2] 60 30 = Inr []"
    using db by (simp add: rate_limit_query_def)
  hence av: "getAvailableProxies rows_failing_db (ratelimited_with http_only [proxyB]) [proxyB] = Inr []"
    using db(2) cnt(2)
    by (simp add: getAvailableProxies_def ratelimited_with_fields proxy_ids
        collect_available_ids_def proxyHasRecentRequests_eq)
  hence "fst (select_available rows_failing_db 1 1 (ratelimited_with http_only [proxyB])) = []"
    by (simp add: select_available_def ratelimited_with_fields Let_def)
  hence "fst (RateLimitedSelector_Select rows_failing_db 1 1 (ratelimited_with http_only [proxyB]))
           = Inl AllRateLimited"
    by (simp add: RateLimitedSelector_Select_result ratelimited_with_fields)
  with db av cnt show ?thesis
    by (simp add: proxy_ids)
qed

text \<open>
  The path of \<open>Select\<close> that does degrade open: when \<open>Pool.Query\<close> returns an error
  for the grouped query, \<open>Select\<close> on a non-empty candidate list returns an upstream
  and no error: with a valid cache an upstream of the cache, otherwise an upstream of
  the whole candidate list, which becomes the cache.
\<close>

lemma Query_error_degrades_open:
  assumes "rate_query db = QueryError" and "proxies s \<noteq> []" and "0 \<le> currentIndex s"
  shows "(\<exists>p. fst (RateLimitedSelector_Select db now now' s) = Inr p \<and>
              p \<in> set (fst (select_available db now now' s))) \<and>
         (now < cacheExpiry s \<and> cache s \<noteq> [] \<longrightarrow>
            fst (select_available db now now' s) = cache s) \<and>
         (\<not> (now < cacheExpiry s \<and> cache s \<noteq> []) \<longrightarrow>
            fst (select_available db now now' s) = proxies s \<and>
            cache (snd (RateLimitedSelector_Select db now now' s)) = proxies s)"
proof -
  let ?av = "fst (select_available db now now' s)"
  have fail: "getAvailableProxies db s (proxies s) = Inl RateQueryFailed"
    using assms(1,2) by (simp add: getAvailableProxies_def rate_limit_query_def)
  have valid: "?av = cache s" if "now < cacheExpiry s \<and> cache s \<noteq> []"
    using that by (simp add: select_available_def Let_def)
  have invalid: "select_available db now now' s
      = (proxies s, s\<lparr>cache := proxies s, cacheExpiry := now' + cacheDuration s\<rparr>)"
    if "\<not> (now < cacheExpiry s \<and> cache s \<noteq> [])"
    using that by (auto simp: select_available_def fail Let_def)
  have ne: "?av \<noteq> []"
    using valid invalid assms(2) by (cases "now < cacheExpiry s \<and> cache s \<noteq> []") auto
  have sel: "\<exists>p. fst (RateLimitedSelector_Select db now now' s) = Inr p \<and> p \<in> set ?av"
    using nth_mem [OF smod_index(2) [OF assms(3) ne]] assms(2) ne
    unfolding RateLimitedSelector_Select_result [OF assms(3)] by simp
  have "cache (snd (RateLimitedSelector_Select db now now' s)) = proxies s"
    if "\<not> (now < cacheExpiry s \<and> cache s \<noteq> [])"
    using assms(2,3) smod_index(1) [OF assms(3) assms(2)]
    by (simp add: RateLimitedSelector_Select_def invalid [OF that] Let_def)
  with sel valid invalid show ?thesis
    by auto
qed

lemma Query_error_degrades_open_example:
  "rate_query rate_failing_db = QueryError \<and>
   fst (select_available rate_failing_db 1 1 (ratelimited_with http_only [proxyA, proxyB]))
     = [proxyA, proxyB] \<and>
   (\<exists>p. fst (RateLimitedSelector_Select rate_failing_db 1 1 (ratelimited_with http_only [proxyA, proxyB]))
           = Inr p \<and> p \<in> set [proxyA, proxyB])"
proof -
  have h: "rate_query rate_failing_db = QueryError"
    "proxies (ratelimited_with http_only [proxyA, proxyB]) \<noteq> []"
    "0 \<le> currentIndex (ratelimited_with http_only [proxyA, proxyB])"
    by (simp_all add: rate_failing_db_def healthy_db_def ratelimited_with_fields)
  note r = Query_error_degrades_open [OF h, of 1 1]
  have av: "fst (select_available rate_failing_db 1 1 (ratelimited_with http_only [proxyA, proxyB]))
              = [proxyA, proxyB]"
    using r by (simp add: ratelimited_with_fields)
  have "\<exists>p. fst (RateLimitedSelector_Select rate_failing_db 1 1
                (ratelimited_with http_only [proxyA, proxyB])) = Inr p \<and>
            p \<in> set (fst (select_available rate_failing_db 1 1
                         (ratelimited_with http_only [proxyA, proxyB])))"
    using r by blast
  hence "\<exists>p. fst (RateLimitedSelector_Select rate_failing_db 1 1
                (ratelimited_with http_only [proxyA, proxyB])) = Inr p \<and>
            p \<in> set [proxyA, proxyB]"
    unfolding av .
  with h av show ?thesis
    by blast
qed

section \<open>The middleware chain\<close>

text \<open>What \<open>wrapperHandler\<close> does with a request outside the prefix.\<close>

lemma wrapperHandler_outside_prefix:
  assumes "\<not> is_hyperliquid_path (Path (ReqURL r))"
  shows "wrapperHandler env r =
     (if \<not> is_proxy_request r then [Classified NonProxy, NonproxyHandler]
      else
        Classified (if Method r = ''CONNECT'' then Connect else HTTPForward) #
        (case auth_verdict env r of
           Some resp \<Rightarrow> [AuthMiddleware (Some resp), WriteResponse resp]
         | None \<Rightarrow>
             (case rate_limit_verdict env r of
                Some resp \<Rightarrow> [AuthMiddleware None, RateLimitMiddleware (Some resp), WriteResponse resp]
              | None \<Rightarrow>
                  AuthMiddleware None # RateLimitMiddleware None #
                  (if Method r = ''CONNECT'' then [ConnectDial (Host r)]
                   else [Handler r,
                         (case handler_HandleRequest env r of
                            Some resp \<Rightarrow> WriteResponse resp
                          | None \<Rightarrow> RoundTrip)]))))"
  using assms
  by (simp add: wrapperHandler_def proxyServer_ServeHTTP_def OnRequest_DoFunc_def
      OnRequest_HandleConnect_def DoFunc_chain_def is_proxy_request_def auth_verdict_def
      rate_limit_verdict_def split: option.splits)

text \<open>What \<open>wrapperHandler\<close> does with a request under the prefix.\<close>

lemma wrapperHandler_under_prefix:
  assumes "is_hyperliquid_path (Path (ReqURL r))"
  shows "wrapperHandler env r =
     Classified Passthrough #
     (case url_Parse env (hyperliquid_newURL r) of
        None \<Rightarrow> [WriteResponse (http_Error ''Failed to parse hyperliquid URL'' 502)]
      | Some u \<Rightarrow>
          (case rateLimitMw_HandleRequest env (hyperliquid_newReq r u) of
             Some resp \<Rightarrow>
               [RateLimitMiddleware (Some resp),
                WriteResponse \<lparr>StatusCode = 200, Body = Response_Write env resp\<rparr>]
           | None \<Rightarrow>
               [RateLimitMiddleware None, Handler (hyperliquid_newReq r u),
                WriteResponse (case handler_HandleRequest env (hyperliquid_newReq r u) of
                                 Some resp \<Rightarrow> resp
                               | None \<Rightarrow> http_Error ''No response from handler'' 500)]))"
  using assms by (simp add: wrapperHandler_def Let_def split: option.splits)

lemma wrapperHandler_ignores_auth:
  assumes "is_hyperliquid_path (Path (ReqURL r))"
  shows "wrapperHandler (env\<lparr>authMiddleware_HandleRequest := a, authMiddleware_HandleConnect := b\<rparr>) r
           = wrapperHandler env r"
  unfolding wrapperHandler_under_prefix [OF assms] by (simp split: option.splits)

text \<open>The requests of the examples, rewritten and parsed.\<close>

lemma example_paths:
  "is_hyperliquid_path (Path (ReqURL hyperliquid_request))"
  "is_hyperliquid_path (Path (ReqURL bad_escape_request))"
  "\<not> is_hyperliquid_path (Path (ReqURL proxy_request_example))"
  "\<not> is_hyperliquid_path (Path (ReqURL connect_request_example))"
  "\<not> is_hyperliquid_path (Path (ReqURL direct_request_example))"
  by (simp_all add: is_hyperliquid_path_def hyperliquid_request_def bad_escape_request_def
      proxy_request_example_def connect_request_example_def direct_request_example_def)

lemma example_newURLs:
  "hyperliquid_newURL hyperliquid_request = ''https://api.hyperliquid.xyz/info''"
  "hyperliquid_newURL bad_escape_request = ''https://api.hyperliquid.xyz/%zz''"
  by (simp_all add: hyperliquid_newURL_def TrimPrefix_def hyperliquid_request_def
      bad_escape_request_def Let_def)

lemma example_parses:
  "parse_hyperliquid ''https://api.hyperliquid.xyz/info''
     = Some \<lparr>Scheme = ''https'', URLHost = ''api.hyperliquid.xyz'', Path = ''/info'', RawQuery = []\<rparr>"
  "parse_hyperliquid ''https://api.hyperliquid.xyz/%zz'' = None"
  by (simp_all add: parse_hyperliquid_def hexval_def Let_def)

lemma example_envs:
  "url_Parse auth_rejects_env = parse_hyperliquid"
  "url_Parse open_env = parse_hyperliquid"
  "url_Parse limiting_env = parse_hyperliquid"
  "authMiddleware_HandleRequest auth_rejects_env x = Some \<lparr>StatusCode = 407, Body = ''Proxy Authentication Required''\<rparr>"
  "authMiddleware_HandleConnect auth_rejects_env x = Some \<lparr>StatusCode = 407, Body = ''Proxy Authentication Required''\<rparr>"
  "rateLimitMw_HandleRequest auth_rejects_env x = None"
  "rateLimitMw_HandleConnect auth_rejects_env x = None"
  "authMiddleware_HandleRequest open_env x = None"
  "authMiddleware_HandleConnect open_env x = None"
  "rateLimitMw_HandleRequest open_env x = None"
  "rateLimitMw_HandleConnect open_env x = None"
  "authMiddleware_HandleRequest limiting_env x = None"
  "authMiddleware_HandleConnect limiting_env x = None"
  "rateLimitMw_HandleRequest limiting_env x = Some \<lparr>StatusCode = 429, Body = ''Too Many Requests''\<rparr>"
  "rateLimitMw_HandleConnect limiting_env x = Some \<lparr>StatusCode = 429, Body = ''Too Many Requests''\<rparr>"
  by (simp_all add: auth_rejects_env_def open_env_def limiting_env_def)

lemma example_classes:
  "is_proxy_request proxy_request_example" "Method proxy_request_example \<noteq> ''CONNECT''"
  "is_proxy_request connect_request_example" "Method connect_request_example = ''CONNECT''"
  "\<not> is_proxy_request direct_request_example"
  by (simp_all add: is_proxy_request_def proxy_request_example_def connect_request_example_def
      direct_request_example_def)

text \<open>
  C3, as stated, fails. The request \<open>GET /hyperliquid/%25zz\<close> is under the prefix; its
  rewritten URL has an invalid escape and does not parse. It is answered 502: it is not
  forwarded although authentication and rate limit would let it through, and the rate
  limit is not consulted although it would reject the request.
\<close>

theorem unparsable_prefix_request_neither_forwarded_nor_limited:
  "is_hyperliquid_path (Path (ReqURL bad_escape_request)) \<and>
   url_Parse open_env (hyperliquid_newURL bad_escape_request) = None \<and>
   authMiddleware_HandleRequest open_env bad_escape_request = None \<and>
   rateLimitMw_HandleRequest open_env bad_escape_request = None \<and>
   \<not> reaches_forwarding (wrapperHandler open_env bad_escape_request) \<and>
   rateLimitMw_HandleRequest limiting_env bad_escape_request \<noteq> None \<and>
   \<not> list_ex is_rate_limit (wrapperHandler limiting_env bad_escape_request) \<and>
   wrapperHandler limiting_env bad_escape_request
     = [Classified Passthrough, WriteResponse (http_Error ''Failed to parse hyperliquid URL'' 502)]"
  by (simp add: wrapperHandler_under_prefix example_paths example_newURLs example_envs
      example_parses reaches_forwarding_def)

text \<open>
  C3, amended. A request whose path is \<open>/hyperliquid\<close> or begins with \<open>/hyperliquid/\<close> is
  served by \<open>wrapperHandler\<close> whatever its method and form, and without client
  authentication: the authentication middleware is not called, and what is done does
  not depend on it. If the rewritten URL parses, the rate-limit middleware is called
  on the rewritten request before anything is forwarded, and the rewritten request
  reaches the forwarding handler exactly when the rate limit lets it through. If the
  rewritten URL does not parse, the request is answered 502, before the rate limit.
\<close>

theorem prefix_requests_skip_auth_keep_rate_limit:
  assumes "is_hyperliquid_path (Path (ReqURL r))"
  shows "\<not> list_ex is_auth (wrapperHandler env r) \<and>
         wrapperHandler (env\<lparr>authMiddleware_HandleRequest := a, authMiddleware_HandleConnect := b\<rparr>) r
           = wrapperHandler env r \<and>
         (\<forall>u. url_Parse env (hyperliquid_newURL r) = Some u \<longrightarrow>
            list_ex (\<lambda>e. e = RateLimitMiddleware (rateLimitMw_HandleRequest env (hyperliquid_newReq r u)))
              (before_forwarding (wrapperHandler env r)) \<and>
            (\<forall>v. RateLimitMiddleware v \<in> set (wrapperHandler env r) \<longrightarrow>
                 v = rateLimitMw_HandleRequest env (hyperliquid_newReq r u)) \<and>
            (reaches_forwarding (wrapperHandler env r) \<longleftrightarrow>
               rateLimitMw_HandleRequest env (hyperliquid_newReq r u) = None) \<and>
            (\<forall>req. Handler req \<in> set (wrapperHandler env r) \<longrightarrow> req = hyperliquid_newReq r u)) \<and>
         (url_Parse env (hyperliquid_newURL r) = None \<longrightarrow>
            wrapperHandler env r
              = [Classified Passthrough,
                 WriteResponse (http_Error ''Failed to parse hyperliquid URL'' 502)])"
proof -
  note w = wrapperHandler_under_prefix [OF assms, of env]
  have auth: "\<not> list_ex is_auth (wrapperHandler env r)"
    unfolding w by (simp split: option.splits)
  have parsed: "list_ex (\<lambda>e. e = RateLimitMiddleware (rateLimitMw_HandleRequest env (hyperliquid_newReq r u)))
              (before_forwarding (wrapperHandler env r)) \<and>
            (\<forall>v. RateLimitMiddleware v \<in> set (wrapperHandler env r) \<longrightarrow>
                 v = rateLimitMw_HandleRequest env (hyperliquid_newReq r u)) \<and>
            (reaches_forwarding (wrapperHandler env r) \<longleftrightarrow>
               rateLimitMw_HandleRequest env (hyperliquid_newReq r u) = None) \<and>
            (\<forall>req. Handler req \<in> set (wrapperHandler env r) \<longrightarrow> req = hyperliquid_newReq r u)"
    if "url_Parse env (hyperliquid_newURL r) = Some u" for u
    unfolding w that
    by (cases "rateLimitMw_HandleRequest env (hyperliquid_newReq r u)")
       (simp_all add: before_forwarding_def reaches_forwarding_def)
  have unparsed: "wrapperHandler env r
      = [Classified Passthrough, WriteResponse (http_Error ''Failed to parse hyperliquid URL'' 502)]"
    if "url_Parse env (hyperliquid_newURL r) = None"
    unfolding w that by simp
  from auth wrapperHandler_ignores_auth [OF assms] parsed unparsed show ?thesis
    by blast
qed

theorem prefix_requests_skip_auth_keep_rate_limit_witness:
  "is_hyperliquid_path (Path (ReqURL hyperliquid_request)) \<and>
   url_Parse auth_rejects_env (hyperliquid_newURL hyperliquid_request)
     = Some \<lparr>Scheme = ''https'', URLHost = ''api.hyperliquid.xyz'', Path = ''/info'', RawQuery = []\<rparr> \<and>
   authMiddleware_HandleRequest auth_rejects_env hyperliquid_request \<noteq> None \<and>
   \<not> list_ex is_auth (wrapperHandler auth_rejects_env hyperliquid_request) \<and>
   reaches_forwarding (wrapperHandler auth_rejects_env hyperliquid_request) \<and>
   url_Parse limiting_env (hyperliquid_newURL hyperliquid_request)
     = Some \<lparr>Scheme = ''https'', URLHost = ''api.hyperliquid.xyz'', Path = ''/info'', RawQuery = []\<rparr> \<and>
   \<not> reaches_forwarding (wrapperHandler limiting_env hyperliquid_request) \<and>
   list_ex (\<lambda>e. e = RateLimitMiddleware (Some \<lparr>StatusCode = 429, Body = ''Too Many Requests''\<rparr>))
     (before_forwarding (wrapperHandler limiting_env hyperliquid_request)) \<and>
   is_hyperliquid_path (Path (ReqURL bad_escape_request)) \<and>
   url_Parse limiting_env (hyperliquid_newURL bad_escape_request) = None \<and>
   wrapperHandler limiting_env bad_escape_request
     = [Classified Passthrough, WriteResponse (http_Error ''Failed to parse hyperliquid URL'' 502)]"
proof -
  let ?u = "\<lparr>Scheme = ''https'', URLHost = ''api.hyperliquid.xyz'', Path = ''/info'', RawQuery = []\<rparr>"
  have p: "url_Parse auth_rejects_env (hyperliquid_newURL hyperliquid_request) = Some ?u"
    "url_Parse limiting_env (hyperliquid_newURL hyperliquid_request) = Some ?u"
    "url_Parse limiting_env (hyperliquid_newURL bad_escape_request) = None"
    by (simp_all add: example_envs example_newURLs example_parses)
  have a: "authMiddleware_HandleRequest auth_rejects_env hyperliquid_request \<noteq> None"
    by (simp add: example_envs)
  note t1 = prefix_requests_skip_auth_keep_rate_limit [OF example_paths(1), of auth_rejects_env]
  note t2 = prefix_requests_skip_auth_keep_rate_limit [OF example_paths(1), of limiting_env]
  note t3 = prefix_requests_skip_auth_keep_rate_limit [OF example_paths(2), of limiting_env]
  have f1: "\<not> list_ex is_auth (wrapperHandler auth_rejects_env hyperliquid_request)"
    "reaches_forwarding (wrapperHandler auth_rejects_env hyperliquid_request)"
    using t1 p(1) by (simp_all add: example_envs)
  have f2: "\<not> reaches_forwarding (wrapperHandler limiting_env hyperliquid_request)"
    "list_ex (\<lambda>e. e = RateLimitMiddleware (Some \<lparr>StatusCode = 429, Body = ''Too Many Requests''\<rparr>))
       (before_forwarding (wrapperHandler limiting_env hyperliquid_request))"
    using t2 p(2) by (simp_all add: example_envs)
  have f3: "wrapperHandler limiting_env bad_escape_request
     = [Classified Passthrough, WriteResponse (http_Error ''Failed to parse hyperliquid URL'' 502)]"
    using t3 p(3) by simp
  from example_paths(1,2) p a f1 f2 f3 show ?thesis
    by blast
qed

text \<open>
  C9, as stated, fails, in two ways. Authentication rejects every request, and a
  request under the prefix \<open>/hyperliquid/\<close> reaches the forwarding handler all the same,
  with no call of the authentication middleware. And classification does not come
  after the middlewares: a proxy request is classified before authentication is
  called, and a request that is no proxy request is answered with no call of
  authentication at all.
\<close>

theorem hyperliquid_forwarded_without_auth:
  "authMiddleware_HandleRequest auth_rejects_env hyperliquid_request \<noteq> None \<and>
   reaches_forwarding (wrapperHandler auth_rejects_env hyperliquid_request) \<and>
   \<not> passed_auth_then_rate_limit (wrapperHandler auth_rejects_env hyperliquid_request) \<and>
   \<not> list_ex is_auth (wrapperHandler auth_rejects_env hyperliquid_request) \<and>
   reaches_forwarding (wrapperHandler open_env proxy_request_example) \<and>
   hd (wrapperHandler open_env proxy_request_example) = Classified HTTPForward \<and>
   \<not> middlewares_before_classification (wrapperHandler open_env proxy_request_example) \<and>
   \<not> list_ex is_auth (wrapperHandler auth_rejects_env direct_request_example)"
proof -
  let ?u = "\<lparr>Scheme = ''https'', URLHost = ''api.hyperliquid.xyz'', Path = ''/info'', RawQuery = []\<rparr>"
  have t1: "wrapperHandler auth_rejects_env hyperliquid_request
      = [Classified Passthrough, RateLimitMiddleware None,
         Handler (hyperliquid_newReq hyperliquid_request ?u),
         WriteResponse \<lparr>StatusCode = 200, Body = ''ok''\<rparr>]"
    by (simp add: wrapperHandler_under_prefix example_paths example_newURLs example_envs
        example_parses)
       (simp add: auth_rejects_env_def)
  have t2: "wrapperHandler open_env proxy_request_example
      = [Classified HTTPForward, AuthMiddleware None, RateLimitMiddleware None,
         Handler proxy_request_example, WriteResponse \<lparr>StatusCode = 200, Body = ''ok''\<rparr>]"
    by (simp add: wrapperHandler_outside_prefix example_paths example_classes auth_verdict_def
        rate_limit_verdict_def example_envs)
       (simp add: open_env_def auth_rejects_env_def)
  have t3: "wrapperHandler auth_rejects_env direct_request_example
      = [Classified NonProxy, NonproxyHandler]"
    by (simp add: wrapperHandler_outside_prefix example_paths example_classes)
  show ?thesis
    unfolding t1 t2 t3
    by (simp add: reaches_forwarding_def passed_auth_then_rate_limit_def before_forwarding_def
        middlewares_before_classification_def example_envs)
qed

text \<open>
  C9, amended. Every request entering the listener is classified first. For a proxy
  request (a CONNECT, or a request with an absolute URL) whose path is not under the
  prefix \<open>/hyperliquid\<close>: client authentication is evaluated; the rate limit is evaluated
  exactly when authentication lets the request through, and after it; the request
  reaches forwarding exactly when both let it through, and then it has passed
  authentication first and the rate limit second. A request outside the prefix that is
  no proxy request meets no middleware and is not forwarded. A request under the prefix
  meets no authentication, and reaches forwarding exactly when its rewritten URL parses
  and the rate limit lets the rewritten request through.
\<close>

theorem middleware_order_after_classification:
  "wrapperHandler env r \<noteq> [] \<and> is_classified (hd (wrapperHandler env r)) \<and>
   (\<not> is_hyperliquid_path (Path (ReqURL r)) \<longrightarrow>
      (list_ex is_auth (wrapperHandler env r) \<longleftrightarrow> is_proxy_request r) \<and>
      (\<forall>v. AuthMiddleware v \<in> set (wrapperHandler env r) \<longrightarrow> v = auth_verdict env r) \<and>
      (list_ex is_rate_limit (wrapperHandler env r)
         \<longleftrightarrow> is_proxy_request r \<and> auth_verdict env r = None) \<and>
      (\<forall>v. RateLimitMiddleware v \<in> set (wrapperHandler env r) \<longrightarrow> v = rate_limit_verdict env r) \<and>
      (list_ex is_rate_limit (wrapperHandler env r)
         \<longrightarrow> auth_passed_before_rate_limit (wrapperHandler env r)) \<and>
      (reaches_forwarding (wrapperHandler env r)
         \<longleftrightarrow> is_proxy_request r \<and> auth_verdict env r = None \<and> rate_limit_verdict env r = None) \<and>
      (reaches_forwarding (wrapperHandler env r)
         \<longrightarrow> passed_auth_then_rate_limit (wrapperHandler env r))) \<and>
   (is_hyperliquid_path (Path (ReqURL r)) \<longrightarrow>
      \<not> list_ex is_auth (wrapperHandler env r) \<and>
      (reaches_forwarding (wrapperHandler env r)
         \<longleftrightarrow> (\<exists>u. url_Parse env (hyperliquid_newURL r) = Some u \<and>
                  rateLimitMw_HandleRequest env (hyperliquid_newReq r u) = None)) \<and>
      (reaches_forwarding (wrapperHandler env r) \<longrightarrow> passed_rate_limit (wrapperHandler env r)))"
proof (cases "is_hyperliquid_path (Path (ReqURL r))")
  case True
  note w = wrapperHandler_under_prefix [OF True, of env]
  show ?thesis
  proof (cases "url_Parse env (hyperliquid_newURL r)")
    case None
    with True show ?thesis
      unfolding w by (simp add: reaches_forwarding_def)
  next
    case (Some u)
    with True show ?thesis
      unfolding w
      by (cases "rateLimitMw_HandleRequest env (hyperliquid_newReq r u)")
         (simp_all add: reaches_forwarding_def passed_rate_limit_def before_forwarding_def)
  qed
next
  case False
  note w = wrapperHandler_outside_prefix [OF False, of env]
  show ?thesis
  proof (cases "is_proxy_request r")
    case no: False
    with False show ?thesis
      unfolding w by (simp add: reaches_forwarding_def)
  next
    case yes: True
    show ?thesis
    proof (cases "auth_verdict env r")
      case (Some resp)
      with False yes show ?thesis
        unfolding w by (simp add: reaches_forwarding_def)
    next
      case None
      with False yes show ?thesis
        unfolding w
        by (cases "rate_limit_verdict env r"; cases "Method r = ''CONNECT''")
           (simp_all add: reaches_forwarding_def passed_auth_then_rate_limit_def
             before_forwarding_def auth_passed_before_rate_limit_def split: option.splits)
    qed
  qed
qed

theorem middleware_order_after_classification_witness:
  "\<not> is_hyperliquid_path (Path (ReqURL proxy_request_example)) \<and>
   is_proxy_request proxy_request_example \<and>
   auth_verdict open_env proxy_request_example = None \<and>
   rate_limit_verdict open_env proxy_request_example = None \<and>
   reaches_forwarding (wrapperHandler open_env proxy_request_example) \<and>
   passed_auth_then_rate_limit (wrapperHandler open_env proxy_request_example) \<and>
   \<not> is_hyperliquid_path (Path (ReqURL connect_request_example)) \<and>
   is_proxy_request connect_request_example \<and>
   auth_verdict limiting_env connect_request_example = None \<and>
   rate_limit_verdict limiting_env connect_request_example \<noteq> None \<and>
   list_ex is_rate_limit (wrapperHandler limiting_env connect_request_example) \<and>
   auth_passed_before_rate_limit (wrapperHandler limiting_env connect_request_example) \<and>
   \<not> reaches_forwarding (wrapperHandler limiting_env connect_request_example) \<and>
   \<not> reaches_forwarding (wrapperHandler limiting_env proxy_request_example) \<and>
   auth_verdict auth_rejects_env connect_request_example \<noteq> None \<and>
   list_ex is_auth (wrapperHandler auth_rejects_env connect_request_example) \<and>
   \<not> list_ex is_rate_limit (wrapperHandler auth_rejects_env connect_request_example) \<and>
   \<not> reaches_forwarding (wrapperHandler auth_rejects_env connect_request_example) \<and>
   \<not> is_proxy_request direct_request_example \<and>
   \<not> list_ex is_auth (wrapperHandler open_env direct_request_example) \<and>
   \<not> reaches_forwarding (wrapperHandler open_env direct_request_example) \<and>
   is_hyperliquid_path (Path (ReqURL hyperliquid_request)) \<and>
   reaches_forwarding (wrapperHandler auth_rejects_env hyperliquid_request) \<and>
   passed_rate_limit (wrapperHandler auth_rejects_env hyperliquid_request) \<and>
   \<not> reaches_forwarding (wrapperHandler limiting_env hyperliquid_request)"
proof -
  let ?u = "\<lparr>Scheme = ''https'', URLHost = ''api.hyperliquid.xyz'', Path = ''/info'', RawQuery = []\<rparr>"
  have v: "auth_verdict open_env proxy_request_example = None"
    "rate_limit_verdict open_env proxy_request_example = None"
    "auth_verdict limiting_env connect_request_example = None"
    "rate_limit_verdict limiting_env connect_request_example \<noteq> None"
    "auth_verdict limiting_env proxy_request_example = None"
    "rate_limit_verdict limiting_env proxy_request_example \<noteq> None"
    "auth_verdict auth_rejects_env connect_request_example \<noteq> None"
    by (simp_all add: auth_verdict_def rate_limit_verdict_def example_envs)
  have p: "url_Parse auth_rejects_env (hyperliquid_newURL hyperliquid_request) = Some ?u"
    "url_Parse limiting_env (hyperliquid_newURL hyperliquid_request) = Some ?u"
    by (simp_all add: example_envs example_newURLs example_parses)
  have l: "rateLimitMw_HandleRequest auth_rejects_env (hyperliquid_newReq hyperliquid_request ?u) = None"
    "\<And>u. rateLimitMw_HandleRequest limiting_env (hyperliquid_newReq hyperliquid_request u) \<noteq> None"
    by (simp_all add: example_envs)
  note c = example_paths example_classes
  from middleware_order_after_classification [of open_env proxy_request_example] v c
  have r1: "reaches_forwarding (wrapperHandler open_env proxy_request_example)"
    "passed_auth_then_rate_limit (wrapperHandler open_env proxy_request_example)"
    by simp_all
  from middleware_order_after_classification [of limiting_env connect_request_example] v c
  have r2: "list_ex is_rate_limit (wrapperHandler limiting_env connect_request_example)"
    "auth_passed_before_rate_limit (wrapperHandler limiting_env connect_request_example)"
    "\<not> reaches_forwarding (wrapperHandler limiting_env connect_request_example)"
    by simp_all
  from middleware_order_after_classification [of limiting_env proxy_request_example] v c
  have r3: "\<not> reaches_forwarding (wrapperHandler limiting_env proxy_request_example)"
    by simp
  from middleware_order_after_classification [of auth_rejects_env connect_request_example] v c
  have r4: "list_ex is_auth (wrapperHandler auth_rejects_env connect_request_example)"
    "\<not> list_ex is_rate_limit (wrapperHandler auth_rejects_env connect_request_example)"
    "\<not> reaches_forwarding (wrapperHandler auth_rejects_env connect_request_example)"
    by simp_all
  from middleware_order_after_classification [of open_env direct_request_example] c
  have r5: "\<not> list_ex is_auth (wrapperHandler open_env direct_request_example)"
    "\<not> reaches_forwarding (wrapperHandler open_env direct_request_example)"
    by simp_all
  from middleware_order_after_classification [of auth_rejects_env hyperliquid_request] c p(1) l(1)
  have r6: "reaches_forwarding (wrapperHandler auth_rejects_env hyperliquid_request)"
    "passed_rate_limit (wrapperHandler auth_rejects_env hyperliquid_request)"
    by simp_all
  from middleware_order_after_classification [of limiting_env hyperliquid_request] c l(2)
  have r7: "\<not> reaches_forwarding (wrapperHandler limiting_env hyperliquid_request)"
    by simp
  from c v r1 r2 r3 r4 r5 r6 r7 show ?thesis
    by blast
qed

section \<open>The cursors of reachable selectors\<close>

text \<open>
  The conditions on the cursors under which the selections above are stated hold of
  every selector that the program can reach: they hold after construction, and
  \<open>Select\<close> and \<open>Refresh\<close> keep them.
\<close>

lemma cursor_in_range_New: "cursor_in_range (NewRoundRobinSelector st)"
  by (simp add: cursor_in_range_def NewRoundRobinSelector_def)

lemma cursor_in_range_Refresh:
  assumes "cursor_in_range s"
  shows "cursor_in_range (snd (RoundRobinSelector_Refresh rnd db s))"
  using assms
  by (auto simp: cursor_in_range_def RoundRobinSelector_Refresh_def split: sum.splits)

lemma cursor_in_range_Select:
  assumes "cursor_in_range s"
  shows "cursor_in_range (snd (RoundRobinSelector_Select s))"
proof (cases "proxies s = []")
  case True
  with assms show ?thesis
    by (simp add: RoundRobinSelector_Select_def)
next
  case False
  with assms have i: "0 \<le> index s" "index s < int (length (proxies s))"
    by (simp_all add: cursor_in_range_def)
  show ?thesis
    unfolding RoundRobinSelector_Select_step [OF i] using False
    by (simp add: cursor_in_range_def)
qed

lemma currentIndex_New: "currentIndex (NewRateLimitedSelector st maxRequests window) = 0"
  by (simp add: NewRateLimitedSelector_def Let_def)

lemma currentIndex_Refresh:
  "0 \<le> currentIndex s \<Longrightarrow> 0 \<le> currentIndex (snd (RateLimitedSelector_Refresh rnd db s))"
  by (simp add: RateLimitedSelector_Refresh_def split: sum.splits)

lemma currentIndex_Select:
  assumes "0 \<le> currentIndex s"
  shows "0 \<le> currentIndex (snd (RateLimitedSelector_Select db now now' s))"
proof -
  obtain av s1 where sa: "select_available db now now' s = (av, s1)"
    by (cases "select_available db now now' s")
  have idx: "currentIndex s1 = currentIndex s"
    using select_available_currentIndex [of db now now' s] sa by simp
  show ?thesis
  proof (cases "proxies s = [] \<or> av = []")
    case True
    with assms idx show ?thesis
      by (auto simp: RateLimitedSelector_Select_def sa)
  next
    case False
    hence "0 \<le> (currentIndex s + 1) smod int (length av)"
      using smod_index(1) [of "currentIndex s + 1" av] assms by simp
    with False assms idx show ?thesis
      by (simp add: RateLimitedSelector_Select_def sa Let_def)
  qed
qed

end
